theory Spec2Isabelle
  imports Complex_Main
begin

section \<open>Solidity 0.8 values and checked arithmetic\<close>

text \<open>
  The contracts are compiled with \<^verbatim>\<open>pragma solidity ^0.8.19\<close> and contain no
  \<^verbatim>\<open>unchecked\<close> block: every \<^verbatim>\<open>+\<close>, \<^verbatim>\<open>-\<close>, \<^verbatim>\<open>*\<close> on \<^verbatim>\<open>uint256\<close> reverts with a
  panic when the mathematical result leaves \<open>[0, 2^256 - 1]\<close>, and \<^verbatim>\<open>/\<close> panics on a zero
  divisor. A \<^verbatim>\<open>uint256\<close> is modelled as a \<^typ>\<open>nat\<close>; the four operations below write the
  range check out, so that an overflow is a branch of the model and never a wrapped value.
  A revert discards every state change of the call: a function returns either \<open>Inl\<close> of
  the error, or \<open>Inr\<close> of the new state.
\<close>

type_synonym uint256 = nat
type_synonym address = nat

datatype error =
    Panic
  | Revert string
  | TransferFailed

definition MAX_UINT256 :: nat where
  "MAX_UINT256 = 2 ^ 256 - 1"

definition rbind :: "error + 'a \<Rightarrow> ('a \<Rightarrow> error + 'b) \<Rightarrow> error + 'b" where
  "rbind m f = (case m of Inl e \<Rightarrow> Inl e | Inr x \<Rightarrow> f x)"

definition checked_add :: "uint256 \<Rightarrow> uint256 \<Rightarrow> error + uint256" where
  "checked_add a b = (if a + b \<le> MAX_UINT256 then Inr (a + b) else Inl Panic)"

definition checked_sub :: "uint256 \<Rightarrow> uint256 \<Rightarrow> error + uint256" where
  "checked_sub a b = (if b \<le> a then Inr (a - b) else Inl Panic)"

definition checked_mul :: "uint256 \<Rightarrow> uint256 \<Rightarrow> error + uint256" where
  "checked_mul a b = (if a * b \<le> MAX_UINT256 then Inr (a * b) else Inl Panic)"

definition checked_div :: "uint256 \<Rightarrow> uint256 \<Rightarrow> error + uint256" where
  "checked_div a b = (if b = 0 then Inl Panic else Inr (a div b))"

text \<open>Solidity's unit suffixes: \<^verbatim>\<open>1 ether = 10^18\<close> wei, \<^verbatim>\<open>1 days = 86400\<close> seconds.\<close>

definition ether :: nat where
  "ether = 10 ^ 18"

definition days :: nat where
  "days = 86400"

text \<open>
  \<^verbatim>\<open>payable(to).transfer(v)\<close> takes \<open>v\<close> out of the contract's balance and reverts when
  the balance is too small or when the recipient does not accept the payment. Whether an
  address accepts a payment is a fact of the environment, passed as \<open>acc\<close>.
\<close>

definition transfer :: "(address \<Rightarrow> bool) \<Rightarrow> nat \<Rightarrow> address \<Rightarrow> uint256 \<Rightarrow> error + nat" where
  "transfer acc bal to v = (if v \<le> bal \<and> acc to then Inr (bal - v) else Inl TransferFailed)"

section \<open>AfriLendLoanManager\<close>

datatype LoanStatus = Pending | Funded | Active | Repaid | Defaulted

record Loan =
  loan_id :: uint256
  borrower :: address
  amount :: uint256
  fundedAmount :: uint256
  interestRate :: uint256
  duration :: uint256
  createdAt :: uint256
  dueDate :: uint256
  purpose :: string
  status :: LoanStatus
  lenders :: "address list"
  lenderContributions :: "address \<Rightarrow> uint256"

text \<open>
  The contract's storage, with the ether it holds. A Solidity mapping is total: a key
  that was never written reads as the zero value, here \<open>empty_loan\<close>.
\<close>

record LoanManager =
  loanCounter :: uint256
  loans :: "uint256 \<Rightarrow> Loan"
  borrowerLoans :: "address \<Rightarrow> uint256 list"
  lenderLoans :: "address \<Rightarrow> uint256 list"
  balance :: nat

definition empty_loan :: Loan where
  "empty_loan = \<lparr> loan_id = 0, borrower = 0, amount = 0, fundedAmount = 0, interestRate = 0,
     duration = 0, createdAt = 0, dueDate = 0, purpose = [], status = Pending, lenders = [],
     lenderContributions = (\<lambda>_. 0) \<rparr>"

definition init_manager :: LoanManager where
  "init_manager = \<lparr> loanCounter = 0, loans = (\<lambda>_. empty_loan), borrowerLoans = (\<lambda>_. []),
     lenderLoans = (\<lambda>_. []), balance = 0 \<rparr>"

definition MIN_LOAN_AMOUNT :: nat where "MIN_LOAN_AMOUNT = ether div 100"
definition MAX_LOAN_AMOUNT :: nat where "MAX_LOAN_AMOUNT = 100 * ether"
definition MIN_INTEREST_RATE :: nat where "MIN_INTEREST_RATE = 5"
definition MAX_INTEREST_RATE :: nat where "MAX_INTEREST_RATE = 50"
definition MIN_DURATION :: nat where "MIN_DURATION = 30 * days"
definition MAX_DURATION :: nat where "MAX_DURATION = 365 * days"

text \<open>\<^verbatim>\<open>createLoan\<close>: four \<^verbatim>\<open>require\<close>s, then the counter is bumped and the record filled.\<close>

definition createLoan ::
  "LoanManager \<Rightarrow> address \<Rightarrow> uint256 \<Rightarrow> uint256 \<Rightarrow> uint256 \<Rightarrow> uint256 \<Rightarrow> string
    \<Rightarrow> error + (LoanManager \<times> uint256)" where
  "createLoan s sender now amt rate dur purp =
    (if \<not> (amt \<ge> MIN_LOAN_AMOUNT \<and> amt \<le> MAX_LOAN_AMOUNT) then Inl (Revert ''Invalid loan amount'')
     else if \<not> (rate \<ge> MIN_INTEREST_RATE \<and> rate \<le> MAX_INTEREST_RATE)
       then Inl (Revert ''Invalid interest rate'')
     else if \<not> (dur \<ge> MIN_DURATION \<and> dur \<le> MAX_DURATION) then Inl (Revert ''Invalid duration'')
     else if \<not> (length purp > 0) then Inl (Revert ''Purpose cannot be empty'')
     else
       rbind (checked_add (loanCounter s) 1) (\<lambda>counter'.
       rbind (checked_add now dur) (\<lambda>due.
         let loanId = loanCounter s;
             loan = (loans s loanId)\<lparr> loan_id := loanId, borrower := sender, amount := amt,
               fundedAmount := 0, interestRate := rate, duration := dur, createdAt := now,
               dueDate := due, purpose := purp, status := Pending \<rparr>
         in Inr (s\<lparr> loanCounter := counter',
                    loans := (loans s)(loanId := loan),
                    borrowerLoans := (borrowerLoans s)(sender := borrowerLoans s sender @ [loanId]) \<rparr>,
                 loanId))))"

text \<open>
  The linear scan of \<^verbatim>\<open>fundLoan\<close> over \<^verbatim>\<open>loan.lenders\<close>, with its \<^verbatim>\<open>break\<close> at the
  first hit.
\<close>

fun lenderExists :: "address list \<Rightarrow> address \<Rightarrow> bool" where
  "lenderExists [] a = False"
| "lenderExists (x # xs) a = (if x = a then True else lenderExists xs a)"

text \<open>
  \<^verbatim>\<open>fundLoan\<close> is payable: the value sent is in the contract's balance while the body
  runs.
\<close>

definition fundLoan :: "LoanManager \<Rightarrow> address \<Rightarrow> uint256 \<Rightarrow> uint256 \<Rightarrow> error + LoanManager" where
  "fundLoan s sender val loanId =
    (if \<not> loanId < loanCounter s then Inl (Revert ''Loan does not exist'')
     else let loan = loans s loanId in
       if status loan \<noteq> Pending then Inl (Revert ''Loan is not available for funding'')
       else if \<not> val > 0 then Inl (Revert ''Funding amount must be greater than 0'')
       else
         rbind (checked_sub (amount loan) (fundedAmount loan)) (\<lambda>remaining.
         if \<not> val \<le> remaining then Inl (Revert ''Funding amount exceeds remaining loan amount'')
         else
           rbind (checked_add (fundedAmount loan) val) (\<lambda>funded'.
           rbind (checked_add (lenderContributions loan sender) val) (\<lambda>contribution'.
             let ex = lenderExists (lenders loan) sender;
                 loan1 = loan\<lparr> fundedAmount := funded',
                   lenderContributions := (lenderContributions loan)(sender := contribution') \<rparr>;
                 loan2 = (if \<not> ex then loan1\<lparr> lenders := lenders loan1 @ [sender] \<rparr> else loan1);
                 loan3 = (if fundedAmount loan2 \<ge> amount loan2 then loan2\<lparr> status := Active \<rparr>
                          else loan2)
             in Inr (s\<lparr> loans := (loans s)(loanId := loan3),
                        lenderLoans := (if \<not> ex
                          then (lenderLoans s)(sender := lenderLoans s sender @ [loanId])
                          else lenderLoans s),
                        balance := balance s + val \<rparr>)))))"

definition calculateRepaymentAmount :: "LoanManager \<Rightarrow> uint256 \<Rightarrow> error + uint256" where
  "calculateRepaymentAmount s loanId =
    (if \<not> loanId < loanCounter s then Inl (Revert ''Loan does not exist'')
     else let loan = loans s loanId;
              principal = fundedAmount loan
       in rbind (checked_mul principal (interestRate loan)) (\<lambda>p1.
          rbind (checked_mul p1 (duration loan)) (\<lambda>p2.
          rbind (checked_div p2 (365 * days * 10000)) (\<lambda>interest.
          checked_add principal interest))))"

text \<open>
  The payout loop of \<^verbatim>\<open>repayLoan\<close>: one transfer per entry of \<^verbatim>\<open>loan.lenders\<close>, in
  order, each of \<^verbatim>\<open>(contribution * repaymentAmount) / loan.fundedAmount\<close>. It returns the
  balance left and the transfers made.
\<close>

fun payLenders ::
  "(address \<Rightarrow> bool) \<Rightarrow> Loan \<Rightarrow> uint256 \<Rightarrow> address list \<Rightarrow> nat
    \<Rightarrow> error + (nat \<times> (address \<times> uint256) list)" where
  "payLenders acc loan repaymentAmount [] bal = Inr (bal, [])"
| "payLenders acc loan repaymentAmount (lender # rest) bal =
     rbind (checked_mul (lenderContributions loan lender) repaymentAmount) (\<lambda>p.
     rbind (checked_div p (fundedAmount loan)) (\<lambda>lenderShare.
     rbind (transfer acc bal lender lenderShare) (\<lambda>bal'.
     rbind (payLenders acc loan repaymentAmount rest bal') (\<lambda>r.
       Inr (fst r, (lender, lenderShare) # snd r)))))"

text \<open>
  \<^verbatim>\<open>repayLoan\<close>: the three modifiers in the order of the declaration, the two
  \<^verbatim>\<open>require\<close>s in the order of the body, the payout loop, the refund of the excess, the
  status. The result carries every transfer made, the refund last.
\<close>

definition repayLoan ::
  "(address \<Rightarrow> bool) \<Rightarrow> LoanManager \<Rightarrow> address \<Rightarrow> uint256 \<Rightarrow> uint256 \<Rightarrow> uint256
    \<Rightarrow> error + (LoanManager \<times> (address \<times> uint256) list)" where
  "repayLoan acc s sender val now loanId =
    (if \<not> loanId < loanCounter s then Inl (Revert ''Loan does not exist'')
     else if borrower (loans s loanId) \<noteq> sender
       then Inl (Revert ''Only borrower can perform this action'')
     else if status (loans s loanId) \<noteq> Active then Inl (Revert ''Loan is not active'')
     else let loan = loans s loanId in
       rbind (calculateRepaymentAmount s loanId) (\<lambda>repaymentAmount.
       if \<not> val \<ge> repaymentAmount then Inl (Revert ''Insufficient repayment amount'')
       else if \<not> now \<le> dueDate loan then Inl (Revert ''Loan has expired'')
       else
         rbind (payLenders acc loan repaymentAmount (lenders loan) (balance s + val)) (\<lambda>r.
         rbind (if val > repaymentAmount
                then rbind (transfer acc (fst r) sender (val - repaymentAmount)) (\<lambda>bal'.
                       Inr (bal', snd r @ [(sender, val - repaymentAmount)]))
                else Inr r) (\<lambda>r'.
           Inr (s\<lparr> loans := (loans s)(loanId := loan\<lparr> status := Repaid \<rparr>),
                    balance := fst r' \<rparr>,
                snd r')))))"

definition getLoanLenders :: "LoanManager \<Rightarrow> uint256 \<Rightarrow> error + address list" where
  "getLoanLenders s loanId =
    (if \<not> loanId < loanCounter s then Inl (Revert ''Loan does not exist'')
     else Inr (lenders (loans s loanId)))"

definition getLenderContribution :: "LoanManager \<Rightarrow> uint256 \<Rightarrow> address \<Rightarrow> error + uint256" where
  "getLenderContribution s loanId lender =
    (if \<not> loanId < loanCounter s then Inl (Revert ''Loan does not exist'')
     else Inr (lenderContributions (loans s loanId) lender))"

text \<open>
  Calls from outside, and the states they reach. A call that reverts leaves the storage
  as it was; \<open>run\<close> executes a sequence of calls from the state after deployment. These
  three are the only functions of the contract that write to its storage.
\<close>

datatype call =
    CreateLoan address uint256 uint256 uint256 uint256 string
  | FundLoan address uint256 uint256
  | RepayLoan "address list" address uint256 uint256 uint256

fun step :: "LoanManager \<Rightarrow> call \<Rightarrow> LoanManager" where
  "step s (CreateLoan sender now amt rate dur purp) =
     (case createLoan s sender now amt rate dur purp of Inl e \<Rightarrow> s | Inr r \<Rightarrow> fst r)"
| "step s (FundLoan sender val loanId) =
     (case fundLoan s sender val loanId of Inl e \<Rightarrow> s | Inr s' \<Rightarrow> s')"
| "step s (RepayLoan rejecting sender val now loanId) =
     (case repayLoan (\<lambda>a. a \<notin> set rejecting) s sender val now loanId of
        Inl e \<Rightarrow> s | Inr r \<Rightarrow> fst r)"

definition run :: "call list \<Rightarrow> LoanManager" where
  "run cs = foldl step init_manager cs"

text \<open>
  What every reachable loan satisfies. \<open>loan_ok\<close> speaks of one loan record,
  \<open>manager_inv\<close> of the whole storage: the loans below the counter were created by
  \<^verbatim>\<open>createLoan\<close>, the slots from the counter on were never written.
\<close>

definition loan_ok :: "Loan \<Rightarrow> bool" where
  "loan_ok l \<longleftrightarrow>
     distinct (lenders l)
   \<and> sum_list (map (lenderContributions l) (lenders l)) = fundedAmount l
   \<and> (\<forall>a. a \<notin> set (lenders l) \<longrightarrow> lenderContributions l a = 0)
   \<and> fundedAmount l \<le> amount l
   \<and> (status l = Pending \<and> fundedAmount l < amount l
      \<or> (status l = Active \<or> status l = Repaid) \<and> fundedAmount l = amount l)"

definition loan_terms_ok :: "Loan \<Rightarrow> bool" where
  "loan_terms_ok l \<longleftrightarrow>
     MIN_LOAN_AMOUNT \<le> amount l \<and> amount l \<le> MAX_LOAN_AMOUNT
   \<and> MIN_INTEREST_RATE \<le> interestRate l \<and> interestRate l \<le> MAX_INTEREST_RATE
   \<and> MIN_DURATION \<le> duration l \<and> duration l \<le> MAX_DURATION
   \<and> dueDate l = createdAt l + duration l"

definition manager_inv :: "LoanManager \<Rightarrow> bool" where
  "manager_inv s \<longleftrightarrow>
     (\<forall>i. i < loanCounter s \<longrightarrow> loan_ok (loans s i) \<and> loan_terms_ok (loans s i))
   \<and> (\<forall>i. \<not> i < loanCounter s \<longrightarrow> loans s i = empty_loan)"

text \<open>Reading a result: the transfers a call made, none when it reverted.\<close>

definition transfers_of :: "error + ('s \<times> (address \<times> uint256) list) \<Rightarrow> (address \<times> uint256) list" where
  "transfers_of r = (case r of Inl e \<Rightarrow> [] | Inr x \<Rightarrow> snd x)"

definition all_accept :: "address \<Rightarrow> bool" where
  "all_accept a = True"

section \<open>Reputation\<close>

datatype TrustLevel = New | Basic | Good | Excellent | Premium

record UserReputation =
  score :: uint256
  totalLoans :: uint256
  successfulLoans :: uint256
  defaultedLoans :: uint256
  totalLent :: uint256
  totalBorrowed :: uint256
  lastUpdated :: uint256
  trustLevel :: TrustLevel
  categoryScores :: "string \<Rightarrow> uint256"

record Reputation =
  reputations :: "address \<Rightarrow> UserReputation"
  registeredUsers :: "address \<Rightarrow> bool"
  users :: "address list"

datatype event =
    ReputationUpdated address uint256 uint256 string
  | TrustLevelChanged address TrustLevel TrustLevel

definition empty_reputation :: UserReputation where
  "empty_reputation = \<lparr> score = 0, totalLoans = 0, successfulLoans = 0, defaultedLoans = 0,
     totalLent = 0, totalBorrowed = 0, lastUpdated = 0, trustLevel = New,
     categoryScores = (\<lambda>_. 0) \<rparr>"

definition init_reputation :: Reputation where
  "init_reputation = \<lparr> reputations = (\<lambda>_. empty_reputation), registeredUsers = (\<lambda>_. False),
     users = [] \<rparr>"

definition MAX_SCORE :: nat where "MAX_SCORE = 2000"
definition MIN_SCORE :: nat where "MIN_SCORE = 0"
definition SUCCESSFUL_LOAN_POINTS :: nat where "SUCCESSFUL_LOAN_POINTS = 50"
definition DEFAULT_PENALTY :: nat where "DEFAULT_PENALTY = 100"
definition ON_TIME_REPAYMENT_BONUS :: nat where "ON_TIME_REPAYMENT_BONUS = 25"
definition EARLY_REPAYMENT_BONUS :: nat where "EARLY_REPAYMENT_BONUS = 10"
definition LENDING_POINTS :: nat where "LENDING_POINTS = 30"
definition REFERRAL_POINTS :: nat where "REFERRAL_POINTS = 20"

text \<open>The internal helpers \<^verbatim>\<open>_min\<close> and \<^verbatim>\<open>_max\<close>.\<close>

definition min_sol :: "uint256 \<Rightarrow> uint256 \<Rightarrow> uint256" where
  "min_sol a b = (if a < b then a else b)"

definition max_sol :: "uint256 \<Rightarrow> uint256 \<Rightarrow> uint256" where
  "max_sol a b = (if a > b then a else b)"

text \<open>The threshold chain of \<^verbatim>\<open>_updateTrustLevel\<close>, top down as in the source.\<close>

definition levelForScore :: "uint256 \<Rightarrow> TrustLevel" where
  "levelForScore newScore =
    (if newScore \<ge> 1000 then Premium
     else if newScore \<ge> 601 then Excellent
     else if newScore \<ge> 301 then Good
     else if newScore \<ge> 101 then Basic
     else New)"

definition updateTrustLevel ::
  "Reputation \<Rightarrow> address \<Rightarrow> uint256 \<Rightarrow> uint256 \<Rightarrow> Reputation \<times> event list" where
  "updateTrustLevel s user previousScore newScore =
    (let previousLevel = trustLevel (reputations s user);
         newLevel = levelForScore newScore
     in if newLevel \<noteq> previousLevel
        then (s\<lparr> reputations := (reputations s)(user := (reputations s user)\<lparr> trustLevel := newLevel \<rparr>) \<rparr>,
              [TrustLevelChanged user newLevel previousLevel])
        else (s, []))"

text \<open>
  Every update function has the same tail: store the new score and the time, re-derive the
  level, emit \<^verbatim>\<open>ReputationUpdated\<close>. \<open>finish\<close> is that tail; \<open>rep\<close> is the user's
  record with its counters already changed.
\<close>

definition finish ::
  "Reputation \<Rightarrow> address \<Rightarrow> UserReputation \<Rightarrow> uint256 \<Rightarrow> uint256 \<Rightarrow> uint256 \<Rightarrow> string
    \<Rightarrow> Reputation \<times> event list" where
  "finish s user rep previousScore newScore now reason =
    (let s1 = s\<lparr> reputations := (reputations s)(user := rep\<lparr> score := newScore, lastUpdated := now \<rparr>) \<rparr>;
         r = updateTrustLevel s1 user previousScore newScore
     in (fst r, snd r @ [ReputationUpdated user newScore previousScore reason]))"

definition registerUser :: "Reputation \<Rightarrow> address \<Rightarrow> uint256 \<Rightarrow> error + (Reputation \<times> event list)" where
  "registerUser s user now =
    (if registeredUsers s user then Inl (Revert ''User already registered'')
     else Inr (s\<lparr> registeredUsers := (registeredUsers s)(user := True),
                  users := users s @ [user],
                  reputations := (reputations s)(user := (reputations s user)\<lparr>
                    score := 100, trustLevel := New, lastUpdated := now \<rparr>) \<rparr>,
               [ReputationUpdated user 100 0 ''User registered'']))"

definition updateReputationOnRepayment ::
  "Reputation \<Rightarrow> address \<Rightarrow> uint256 \<Rightarrow> bool \<Rightarrow> bool \<Rightarrow> uint256 \<Rightarrow> error + (Reputation \<times> event list)" where
  "updateReputationOnRepayment s user loanAmount wasOnTime wasEarly now =
    (if \<not> registeredUsers s user then Inl (Revert ''User not registered'')
     else let reputation = reputations s user;
              previousScore = score reputation in
       rbind (checked_add (successfulLoans reputation) 1) (\<lambda>successful'.
       rbind (checked_add (totalLoans reputation) 1) (\<lambda>total'.
       rbind (checked_add (totalBorrowed reputation) loanAmount) (\<lambda>borrowed'.
       rbind (if wasOnTime then checked_add SUCCESSFUL_LOAN_POINTS ON_TIME_REPAYMENT_BONUS
              else Inr SUCCESSFUL_LOAN_POINTS) (\<lambda>points1.
       rbind (if wasEarly then checked_add points1 EARLY_REPAYMENT_BONUS else Inr points1) (\<lambda>pointsToAdd.
       rbind (checked_add (score reputation) pointsToAdd) (\<lambda>raised.
         Inr (finish s user
                (reputation\<lparr> successfulLoans := successful', totalLoans := total',
                   totalBorrowed := borrowed' \<rparr>)
                previousScore (min_sol raised MAX_SCORE) now ''Successful loan repayment''))))))))"

definition updateReputationOnDefault ::
  "Reputation \<Rightarrow> address \<Rightarrow> uint256 \<Rightarrow> uint256 \<Rightarrow> error + (Reputation \<times> event list)" where
  "updateReputationOnDefault s user loanAmount now =
    (if \<not> registeredUsers s user then Inl (Revert ''User not registered'')
     else let reputation = reputations s user;
              previousScore = score reputation in
       rbind (checked_add (defaultedLoans reputation) 1) (\<lambda>defaulted'.
       rbind (checked_add (totalLoans reputation) 1) (\<lambda>total'.
       rbind (checked_add (totalBorrowed reputation) loanAmount) (\<lambda>borrowed'.
         let penalty = DEFAULT_PENALTY in
       rbind (checked_sub (score reputation) penalty) (\<lambda>lowered.
         Inr (finish s user
                (reputation\<lparr> defaultedLoans := defaulted', totalLoans := total',
                   totalBorrowed := borrowed' \<rparr>)
                previousScore (max_sol lowered MIN_SCORE) now ''Loan default''))))))"

definition updateReputationOnLending ::
  "Reputation \<Rightarrow> address \<Rightarrow> uint256 \<Rightarrow> uint256 \<Rightarrow> error + (Reputation \<times> event list)" where
  "updateReputationOnLending s lender loanAmount now =
    (if \<not> registeredUsers s lender then Inl (Revert ''User not registered'')
     else let reputation = reputations s lender;
              previousScore = score reputation in
       rbind (checked_add (totalLent reputation) loanAmount) (\<lambda>lent'.
         let pointsToAdd = LENDING_POINTS in
       rbind (checked_add (score reputation) pointsToAdd) (\<lambda>raised.
         Inr (finish s lender (reputation\<lparr> totalLent := lent' \<rparr>)
                previousScore (min_sol raised MAX_SCORE) now ''Lending activity''))))"

definition updateReputationOnReferral ::
  "Reputation \<Rightarrow> address \<Rightarrow> address \<Rightarrow> uint256 \<Rightarrow> error + (Reputation \<times> event list)" where
  "updateReputationOnReferral s referrer referredUser now =
    (if \<not> registeredUsers s referrer then Inl (Revert ''User not registered'')
     else let reputation = reputations s referrer;
              previousScore = score reputation;
              pointsToAdd = REFERRAL_POINTS in
       rbind (checked_add (score reputation) pointsToAdd) (\<lambda>raised.
         Inr (finish s referrer reputation
                previousScore (min_sol raised MAX_SCORE) now ''Referral bonus'')))"

text \<open>
  \<^verbatim>\<open>updateCategoryScore\<close> takes an \<^verbatim>\<open>int256\<close>. \<^verbatim>\<open>uint256(points)\<close> of a positive value
  is the value; \<^verbatim>\<open>-points\<close> is checked and panics at \<open>- 2^255\<close>, the one value whose
  negation is not an \<^verbatim>\<open>int256\<close>.
\<close>

definition updateCategoryScore ::
  "Reputation \<Rightarrow> address \<Rightarrow> string \<Rightarrow> int \<Rightarrow> uint256 \<Rightarrow> error + (Reputation \<times> event list)" where
  "updateCategoryScore s user category points now =
    (if \<not> registeredUsers s user then Inl (Revert ''User not registered'')
     else let reputation = reputations s user;
              previousScore = score reputation in
       if points > 0 then
         rbind (checked_add (categoryScores reputation category) (nat points)) (\<lambda>cat'.
         rbind (checked_add (score reputation) (nat points)) (\<lambda>raised.
           Inr (finish s user
                  (reputation\<lparr> categoryScores := (categoryScores reputation)(category := cat') \<rparr>)
                  previousScore (min_sol raised MAX_SCORE) now (''Category update: '' @ category))))
       else if points = - (2 ^ 255) then Inl Panic
       else let absPoints = nat (- points) in
         rbind (checked_sub (categoryScores reputation category) absPoints) (\<lambda>catLowered.
         rbind (checked_sub (score reputation) absPoints) (\<lambda>lowered.
           Inr (finish s user
                  (reputation\<lparr> categoryScores :=
                     (categoryScores reputation)(category := max_sol catLowered 0) \<rparr>)
                  previousScore (max_sol lowered MIN_SCORE) now (''Category update: '' @ category)))))"

text \<open>Calls to the reputation contract; a reverted call changes nothing and emits nothing.\<close>

datatype rep_call =
    RegisterUser address uint256
  | OnRepayment address uint256 bool bool uint256
  | OnDefault address uint256 uint256
  | OnLending address uint256 uint256
  | OnReferral address address uint256
  | OnCategory address string int uint256

fun rep_exec :: "Reputation \<Rightarrow> rep_call \<Rightarrow> error + (Reputation \<times> event list)" where
  "rep_exec s (RegisterUser u now) = registerUser s u now"
| "rep_exec s (OnRepayment u a onTime early now) = updateReputationOnRepayment s u a onTime early now"
| "rep_exec s (OnDefault u a now) = updateReputationOnDefault s u a now"
| "rep_exec s (OnLending u a now) = updateReputationOnLending s u a now"
| "rep_exec s (OnReferral u r now) = updateReputationOnReferral s u r now"
| "rep_exec s (OnCategory u c p now) = updateCategoryScore s u c p now"

definition rep_step :: "Reputation \<Rightarrow> rep_call \<Rightarrow> Reputation" where
  "rep_step s c = (case rep_exec s c of Inl e \<Rightarrow> s | Inr r \<Rightarrow> fst r)"

definition rep_run :: "rep_call list \<Rightarrow> Reputation" where
  "rep_run cs = foldl rep_step init_reputation cs"

text \<open>The level stored for a user is the one its score gives.\<close>

definition level_derived :: "Reputation \<Rightarrow> bool" where
  "level_derived s \<longleftrightarrow>
     (\<forall>u. trustLevel (reputations s u) = levelForScore (score (reputations s u)))"

section \<open>LenderPool\<close>

record Pool =
  pool_id :: uint256
  creator :: address
  name :: string
  description :: string
  targetAmount :: uint256
  currentAmount :: uint256
  interestRate :: uint256
  createdAt :: uint256
  active :: bool
  lenders :: "address list"
  lenderShares :: "address \<Rightarrow> uint256"
  lenderYield :: "address \<Rightarrow> uint256"

record LenderPool =
  poolCounter :: uint256
  pools :: "uint256 \<Rightarrow> Pool"
  userPools :: "address \<Rightarrow> uint256 list"
  balance :: nat

definition empty_pool :: Pool where
  "empty_pool = \<lparr> pool_id = 0, creator = 0, name = [], description = [], targetAmount = 0,
     currentAmount = 0, interestRate = 0, createdAt = 0, active = False, lenders = [],
     lenderShares = (\<lambda>_. 0), lenderYield = (\<lambda>_. 0) \<rparr>"

definition init_pools :: LenderPool where
  "init_pools = \<lparr> poolCounter = 0, pools = (\<lambda>_. empty_pool), userPools = (\<lambda>_. []),
     balance = 0 \<rparr>"

definition MIN_POOL_AMOUNT :: nat where "MIN_POOL_AMOUNT = 1 * ether"
definition MAX_POOL_AMOUNT :: nat where "MAX_POOL_AMOUNT = 1000 * ether"
definition MIN_INTEREST_RATE_pool :: nat where "MIN_INTEREST_RATE_pool = 3"
definition MAX_INTEREST_RATE_pool :: nat where "MAX_INTEREST_RATE_pool = 25"

definition createPool ::
  "LenderPool \<Rightarrow> address \<Rightarrow> uint256 \<Rightarrow> string \<Rightarrow> string \<Rightarrow> uint256 \<Rightarrow> uint256
    \<Rightarrow> error + (LenderPool \<times> uint256)" where
  "createPool s sender now nm descr target rate =
    (if \<not> (length nm > 0) then Inl (Revert ''Pool name cannot be empty'')
     else if \<not> (target \<ge> MIN_POOL_AMOUNT \<and> target \<le> MAX_POOL_AMOUNT)
       then Inl (Revert ''Invalid target amount'')
     else if \<not> (rate \<ge> MIN_INTEREST_RATE_pool \<and> rate \<le> MAX_INTEREST_RATE_pool)
       then Inl (Revert ''Invalid interest rate'')
     else
       rbind (checked_add (poolCounter s) 1) (\<lambda>counter'.
         let poolId = poolCounter s;
             pool = (pools s poolId)\<lparr> pool_id := poolId, creator := sender, name := nm,
               description := descr, targetAmount := target, currentAmount := 0,
               interestRate := rate, createdAt := now, active := True \<rparr>
         in Inr (s\<lparr> poolCounter := counter',
                    pools := (pools s)(poolId := pool),
                    userPools := (userPools s)(sender := userPools s sender @ [poolId]) \<rparr>,
                 poolId)))"

definition addLiquidity :: "LenderPool \<Rightarrow> address \<Rightarrow> uint256 \<Rightarrow> uint256 \<Rightarrow> error + LenderPool" where
  "addLiquidity s sender val poolId =
    (if \<not> poolId < poolCounter s then Inl (Revert ''Pool does not exist'')
     else if \<not> active (pools s poolId) then Inl (Revert ''Pool is not active'')
     else let pool = pools s poolId in
       if \<not> val > 0 then Inl (Revert ''Amount must be greater than 0'')
       else
         rbind (checked_add (currentAmount pool) val) (\<lambda>current'.
         if \<not> current' \<le> targetAmount pool then Inl (Revert ''Exceeds pool target amount'')
         else
           rbind (checked_add (lenderShares pool sender) val) (\<lambda>share'.
             let ex = lenderExists (lenders pool) sender;
                 pool1 = pool\<lparr> currentAmount := current',
                   lenderShares := (lenderShares pool)(sender := share') \<rparr>;
                 pool2 = (if \<not> ex then pool1\<lparr> lenders := lenders pool1 @ [sender] \<rparr> else pool1)
             in Inr (s\<lparr> pools := (pools s)(poolId := pool2),
                        userPools := (if \<not> ex
                          then (userPools s)(sender := userPools s sender @ [poolId])
                          else userPools s),
                        balance := balance s + val \<rparr>))))"

definition removeLiquidity ::
  "(address \<Rightarrow> bool) \<Rightarrow> LenderPool \<Rightarrow> address \<Rightarrow> uint256 \<Rightarrow> uint256
    \<Rightarrow> error + (LenderPool \<times> (address \<times> uint256) list)" where
  "removeLiquidity acc s sender poolId amt =
    (if \<not> poolId < poolCounter s then Inl (Revert ''Pool does not exist'')
     else let pool = pools s poolId in
       if \<not> lenderShares pool sender \<ge> amt then Inl (Revert ''Insufficient shares'')
       else
         rbind (checked_sub (currentAmount pool) amt) (\<lambda>current'.
         rbind (checked_sub (lenderShares pool sender) amt) (\<lambda>share'.
         rbind (transfer acc (balance s) sender amt) (\<lambda>bal'.
           Inr (s\<lparr> pools := (pools s)(poolId := pool\<lparr> currentAmount := current',
                        lenderShares := (lenderShares pool)(sender := share') \<rparr>),
                    balance := bal' \<rparr>,
                [(sender, amt)])))))"

text \<open>
  The loop of \<^verbatim>\<open>distributeYield\<close>: for each entry of \<^verbatim>\<open>pool.lenders\<close>, in order,
  \<^verbatim>\<open>(totalYield * lenderShare) / pool.currentAmount\<close> is added to the lender's accumulated
  yield and transferred. The loop writes \<^verbatim>\<open>pool.lenderYield\<close> only, so the yields are
  threaded through it; it returns them with the balance left and the transfers made.
\<close>

fun payYield ::
  "(address \<Rightarrow> bool) \<Rightarrow> Pool \<Rightarrow> uint256 \<Rightarrow> address list \<Rightarrow> (address \<Rightarrow> uint256) \<Rightarrow> nat
    \<Rightarrow> error + ((address \<Rightarrow> uint256) \<times> nat \<times> (address \<times> uint256) list)" where
  "payYield acc pool totalYield [] yields bal = Inr (yields, bal, [])"
| "payYield acc pool totalYield (lender # rest) yields bal =
     rbind (checked_mul totalYield (lenderShares pool lender)) (\<lambda>p.
     rbind (checked_div p (currentAmount pool)) (\<lambda>share.
     rbind (checked_add (yields lender) share) (\<lambda>y'.
     rbind (transfer acc bal lender share) (\<lambda>bal'.
     rbind (payYield acc pool totalYield rest (yields(lender := y')) bal') (\<lambda>r.
       Inr (fst r, fst (snd r), (lender, share) # snd (snd r)))))))"

text \<open>
  \<^verbatim>\<open>distributeYield\<close> is not payable and carries no \<^verbatim>\<open>onlyActivePool\<close>: the yield is
  paid out of the ether the contract holds.
\<close>

definition distributeYield ::
  "(address \<Rightarrow> bool) \<Rightarrow> LenderPool \<Rightarrow> address \<Rightarrow> uint256 \<Rightarrow> uint256
    \<Rightarrow> error + (LenderPool \<times> (address \<times> uint256) list)" where
  "distributeYield acc s sender poolId totalYield =
    (if \<not> poolId < poolCounter s then Inl (Revert ''Pool does not exist'')
     else if creator (pools s poolId) \<noteq> sender
       then Inl (Revert ''Only pool creator can perform this action'')
     else let pool = pools s poolId in
       if \<not> totalYield > 0 then Inl (Revert ''Yield must be greater than 0'')
       else if \<not> currentAmount pool > 0 then Inl (Revert ''Pool has no liquidity'')
       else
         rbind (payYield acc pool totalYield (lenders pool) (lenderYield pool) (balance s)) (\<lambda>r.
           Inr (s\<lparr> pools := (pools s)(poolId := pool\<lparr> lenderYield := fst r \<rparr>),
                    balance := fst (snd r) \<rparr>,
                snd (snd r))))"

definition deactivatePool :: "LenderPool \<Rightarrow> address \<Rightarrow> uint256 \<Rightarrow> error + LenderPool" where
  "deactivatePool s sender poolId =
    (if \<not> poolId < poolCounter s then Inl (Revert ''Pool does not exist'')
     else if creator (pools s poolId) \<noteq> sender
       then Inl (Revert ''Only pool creator can perform this action'')
     else Inr (s\<lparr> pools := (pools s)(poolId := (pools s poolId)\<lparr> active := False \<rparr>) \<rparr>))"

definition getLenderYield :: "LenderPool \<Rightarrow> uint256 \<Rightarrow> address \<Rightarrow> error + uint256" where
  "getLenderYield s poolId lender =
    (if \<not> poolId < poolCounter s then Inl (Revert ''Pool does not exist'')
     else Inr (lenderYield (pools s poolId) lender))"

text \<open>Calls to the pool contract and the states they reach.\<close>

datatype pool_call =
    CreatePool address uint256 string string uint256 uint256
  | AddLiquidity address uint256 uint256
  | RemoveLiquidity "address list" address uint256 uint256
  | DistributeYield "address list" address uint256 uint256
  | DeactivatePool address uint256

fun pool_step :: "LenderPool \<Rightarrow> pool_call \<Rightarrow> LenderPool" where
  "pool_step s (CreatePool sender now nm descr target rate) =
     (case createPool s sender now nm descr target rate of Inl e \<Rightarrow> s | Inr r \<Rightarrow> fst r)"
| "pool_step s (AddLiquidity sender val poolId) =
     (case addLiquidity s sender val poolId of Inl e \<Rightarrow> s | Inr s' \<Rightarrow> s')"
| "pool_step s (RemoveLiquidity rejecting sender poolId amt) =
     (case removeLiquidity (\<lambda>a. a \<notin> set rejecting) s sender poolId amt of
        Inl e \<Rightarrow> s | Inr r \<Rightarrow> fst r)"
| "pool_step s (DistributeYield rejecting sender poolId totalYield) =
     (case distributeYield (\<lambda>a. a \<notin> set rejecting) s sender poolId totalYield of
        Inl e \<Rightarrow> s | Inr r \<Rightarrow> fst r)"
| "pool_step s (DeactivatePool sender poolId) =
     (case deactivatePool s sender poolId of Inl e \<Rightarrow> s | Inr s' \<Rightarrow> s')"

definition pool_run :: "pool_call list \<Rightarrow> LenderPool" where
  "pool_run cs = foldl pool_step init_pools cs"

definition pool_ok :: "Pool \<Rightarrow> bool" where
  "pool_ok p \<longleftrightarrow>
     distinct (lenders p)
   \<and> sum_list (map (lenderShares p) (lenders p)) = currentAmount p
   \<and> (\<forall>a. a \<notin> set (lenders p) \<longrightarrow> lenderShares p a = 0)"

definition pools_inv :: "LenderPool \<Rightarrow> bool" where
  "pools_inv s \<longleftrightarrow>
     (\<forall>i. pool_ok (pools s i)) \<and> (\<forall>i. \<not> i < poolCounter s \<longrightarrow> pools s i = empty_pool)"

definition scenario_three_contributors :: "pool_call list" where
  "scenario_three_contributors =
     [CreatePool 7 1000 ''maize'' ''growers'' (1 * ether) 10, AddLiquidity 1 300 0,
      AddLiquidity 2 300 0, AddLiquidity 3 300 0]"

definition scenario_two_contributors :: "pool_call list" where
  "scenario_two_contributors =
     [CreatePool 7 1000 ''maize'' ''growers'' (1 * ether) 10, AddLiquidity 1 300 0,
      AddLiquidity 2 300 0, DeactivatePool 7 0]"

section \<open>The server's loan documents\<close>

text \<open>
  The Express server keeps each loan as a Firestore document and mirrors the contract's
  bookkeeping in JavaScript. Amounts are JavaScript numbers; the model takes them as
  integers, on which \<^verbatim>\<open>+=\<close> is exact below \<open>2^53\<close>. The store is a map from document
  ids to documents; writes to it are taken to succeed.
\<close>

record LoanDoc =
  doc_id :: string
  borrowerId :: string
  amount :: int
  fundedAmount :: int
  status :: string
  lenders :: "string list"
  lenderContributions :: "string \<rightharpoonup> int"
  isActive :: bool
  fundedAt :: "nat option"
  updatedAt :: nat

text \<open>\<^verbatim>\<open>Loan.fundLoan(lenderId, amount)\<close> of the model class.\<close>

definition fundLoan_doc :: "LoanDoc \<Rightarrow> string \<Rightarrow> int \<Rightarrow> nat \<Rightarrow> LoanDoc" where
  "fundLoan_doc l lenderId amt now =
    (let l1 = (if lenderId \<notin> set (lenders l) then l\<lparr> lenders := lenders l @ [lenderId] \<rparr> else l);
         l2 = l1\<lparr> lenderContributions := (lenderContributions l1)(lenderId \<mapsto>
                  (case lenderContributions l1 lenderId of None \<Rightarrow> 0 | Some c \<Rightarrow> c) + amt),
                fundedAmount := fundedAmount l1 + amt \<rparr>;
         l3 = (if fundedAmount l2 \<ge> amount l2 then l2\<lparr> status := ''active'', fundedAt := Some now \<rparr>
               else l2)
     in l3\<lparr> updatedAt := now \<rparr>)"

text \<open>
  The controller behind \<^verbatim>\<open>DELETE /api/loans/:id\<close>. It answers with an HTTP status and
  the \<^verbatim>\<open>error\<close> field (the \<^verbatim>\<open>message\<close> on success).
\<close>

definition cancelLoan ::
  "(string \<rightharpoonup> LoanDoc) \<Rightarrow> string \<Rightarrow> string \<Rightarrow> nat \<Rightarrow> (string \<rightharpoonup> LoanDoc) \<times> nat \<times> string" where
  "cancelLoan db ident userId now =
    (case db ident of
       None \<Rightarrow> (db, 404, ''Loan not found'')
     | Some loan \<Rightarrow>
         if borrowerId loan \<noteq> userId then (db, 403, ''Permission denied'')
         else if status loan \<noteq> ''pending'' then (db, 400, ''Cannot cancel loan'')
         else (db(ident \<mapsto> loan\<lparr> status := ''cancelled'', isActive := False, updatedAt := now \<rparr>),
               200, ''Loan cancelled successfully''))"

text \<open>A loan document as \<^verbatim>\<open>Loan.create\<close> stores it, and a store holding it half funded.\<close>

definition pending_doc :: LoanDoc where
  "pending_doc = \<lparr> doc_id = ''loan1'', borrowerId = ''alice'', amount = 1000, fundedAmount = 0,
     status = ''pending'', lenders = [], lenderContributions = Map.empty, isActive = True,
     fundedAt = None, updatedAt = 0 \<rparr>"

definition half_funded_db :: "string \<rightharpoonup> LoanDoc" where
  "half_funded_db = [''loan1'' \<mapsto> fundLoan_doc pending_doc ''bob'' 500 10]"

section \<open>The backend loan service\<close>

text \<open>
  The TypeScript backend keeps users, loans, pools and repayments in memory
  (\<^verbatim>\<open>config/database\<close>) and has its own \<^verbatim>\<open>loanService.repayLoan\<close>. Its numbers are
  JavaScript numbers, modelled as rationals: the arithmetic below is exact wherever the
  doubles are, as at the inputs evaluated further down. A \<^verbatim>\<open>Date\<close> is its number of
  milliseconds; one call reads the clock once, as \<open>now\<close>. A thrown \<^verbatim>\<open>AppError\<close> does not
  undo the assignments made before it, so a call returns the store it leaves together with
  its result. The fifth collection, \<^verbatim>\<open>poolFundings\<close>, is not touched by the code below
  and left out, as are the optional \<^verbatim>\<open>transactionHash\<close> fields.
\<close>

record SvcUser =
  user_id :: string
  accountId :: string
  name :: string
  email :: string
  reputation :: rat
  totalBorrowed :: rat
  totalRepaid :: rat
  loanCount :: rat
  poolsCreated :: rat
  createdAt :: int
  updatedAt :: int

record SvcLoan =
  sloan_id :: string
  loanId :: string
  borrowerId :: string
  poolId :: string
  amount :: rat
  principalRemaining :: rat
  status :: string
  interestRate :: rat
  createdAt :: int
  dueDate :: int
  repaidAt :: "int option"

record SvcPool =
  spool_id :: string
  poolId :: string
  poolManager :: string
  poolName :: string
  totalFunded :: rat
  availableBalance :: rat
  activeLoans :: rat
  totalLoansIssued :: rat
  createdAt :: int

record SvcRepayment =
  repayment_id :: string
  loanId :: string
  borrowerId :: string
  amount :: rat
  interestPaid :: rat
  principalPaid :: rat
  createdAt :: int








section \<open>Scenarios\<close>

text \<open>Call sequences used to run the contracts on concrete inputs.\<close>

definition scenario_two_lenders :: "call list" where
  "scenario_two_lenders =
     [CreateLoan 7 1000 (10 ^ 16) 5 (30 * days) ''stock'', FundLoan 1 1 0,
      FundLoan 2 (10 ^ 16 - 2) 0, FundLoan 1 1 0]"

definition scenario_one_year :: "call list" where
  "scenario_one_year = [CreateLoan 7 1000 ether 10 (365 * days) ''stock'', FundLoan 1 ether 0]"

definition scenario_defaulted :: "rep_call list" where
  "scenario_defaulted = [RegisterUser 7 1000, OnDefault 7 ether 2000]"

definition scenario_thousand :: "rep_call list" where
  "scenario_thousand = [RegisterUser 7 1000, OnCategory 7 ''farming'' 850 2000,
     OnRepayment 7 ether False False 3000]"

section \<open>Lemmas on the loan manager\<close>

lemma lenderExists_set: "lenderExists xs a \<longleftrightarrow> a \<in> set xs"
  by (induction xs) auto

lemma sum_upd_in:
  "distinct xs \<Longrightarrow> a \<in> set xs \<Longrightarrow>
     sum_list (map (f(a := c)) xs) + f a = sum_list (map f xs) + (c::nat)"
  by (induction xs) auto

lemma sum_upd_notin:
  "a \<notin> set xs \<Longrightarrow> sum_list (map (f(a := c)) xs) = sum_list (map f xs)"
  by (induction xs) auto

lemma min_loan_pos: "0 < MIN_LOAN_AMOUNT"
  by (simp add: MIN_LOAN_AMOUNT_def ether_def)

lemma inv_init: "manager_inv init_manager"
  by (simp add: manager_inv_def init_manager_def)

lemma createLoan_Inr:
  assumes "createLoan s sender now amt rate dur purp = Inr (s', i)"
  shows "i = loanCounter s \<and> loanCounter s' = Suc (loanCounter s)
    \<and> loans s' = (loans s)(i := (loans s i)\<lparr> loan_id := i, borrower := sender, Loan.amount := amt,
               Loan.fundedAmount := 0, Loan.interestRate := rate, duration := dur,
               Loan.createdAt := now, Loan.dueDate := now + dur, purpose := purp,
               Loan.status := Pending \<rparr>)
    \<and> MIN_LOAN_AMOUNT \<le> amt \<and> amt \<le> MAX_LOAN_AMOUNT
    \<and> MIN_INTEREST_RATE \<le> rate \<and> rate \<le> MAX_INTEREST_RATE
    \<and> MIN_DURATION \<le> dur \<and> dur \<le> MAX_DURATION"
  using assms
  unfolding createLoan_def rbind_def checked_add_def Let_def
  by (simp split: if_splits) auto

lemma fundLoan_Inr:
  assumes "fundLoan s sender val lid = Inr s'"
  shows "lid < loanCounter s \<and> Loan.status (loans s lid) = Pending \<and> 0 < val
    \<and> Loan.fundedAmount (loans s lid) \<le> Loan.amount (loans s lid)
    \<and> val \<le> Loan.amount (loans s lid) - Loan.fundedAmount (loans s lid)
    \<and> loanCounter s' = loanCounter s
    \<and> loans s' = (loans s)(lid := (loans s lid)\<lparr>
          Loan.fundedAmount := Loan.fundedAmount (loans s lid) + val,
          Loan.lenderContributions := (Loan.lenderContributions (loans s lid))
             (sender := Loan.lenderContributions (loans s lid) sender + val),
          Loan.lenders := (if lenderExists (Loan.lenders (loans s lid)) sender
             then Loan.lenders (loans s lid) else Loan.lenders (loans s lid) @ [sender]),
          Loan.status := (if Loan.amount (loans s lid) \<le> Loan.fundedAmount (loans s lid) + val
             then Active else Pending) \<rparr>)"
  using assms
  unfolding fundLoan_def rbind_def checked_add_def checked_sub_def Let_def
  by (simp split: if_splits) auto

lemma repayLoan_Inr:
  assumes "repayLoan acc s sender val now lid = Inr (s', ts)"
  shows "lid < loanCounter s \<and> Loan.status (loans s lid) = Active
    \<and> borrower (loans s lid) = sender
    \<and> now \<le> Loan.dueDate (loans s lid)
    \<and> loanCounter s' = loanCounter s
    \<and> loans s' = (loans s)(lid := (loans s lid)\<lparr> Loan.status := Repaid \<rparr>)"
  using assms
  unfolding repayLoan_def rbind_def Let_def
  by (simp split: if_splits sum.splits) auto

lemma inv_createLoan:
  assumes inv: "manager_inv s" and ok: "createLoan s sender now amt rate dur purp = Inr (s', i)"
  shows "manager_inv s'"
proof -
  note r = createLoan_Inr[OF ok]
  have e: "loans s i = empty_loan" using inv r by (simp add: manager_inv_def)
  have new: "loan_ok (loans s' i) \<and> loan_terms_ok (loans s' i)"
    using r min_loan_pos by (simp add: e loan_ok_def loan_terms_ok_def empty_loan_def)
  have 1: "loan_ok (loans s' j) \<and> loan_terms_ok (loans s' j)"
    if "j < loanCounter s'" for j
  proof (cases "j = i")
    case True
    then show ?thesis using new r by simp
  next
    case False
    then have "j < loanCounter s" using that r by simp
    then show ?thesis using inv r False by (simp add: manager_inv_def)
  qed
  have 2: "loans s' j = empty_loan" if "\<not> j < loanCounter s'" for j
    using that inv r by (simp add: manager_inv_def)
  show ?thesis
    unfolding manager_inv_def using 1 2 by blast
qed

lemma loan_ok_fund:
  assumes "loan_ok l" "Loan.status l = Pending" "0 < val"
    "val \<le> Loan.amount l - Loan.fundedAmount l"
  shows "loan_ok (l\<lparr> Loan.fundedAmount := Loan.fundedAmount l + val,
          Loan.lenderContributions := (Loan.lenderContributions l)
            (a := Loan.lenderContributions l a + val),
          Loan.lenders := (if lenderExists (Loan.lenders l) a then Loan.lenders l
            else Loan.lenders l @ [a]),
          Loan.status := (if Loan.amount l \<le> Loan.fundedAmount l + val then Active
            else Pending) \<rparr>)"
proof (cases "a \<in> set (Loan.lenders l)")
  case True
  then show ?thesis
    using assms sum_upd_in[of "Loan.lenders l" a "Loan.lenderContributions l"
        "Loan.lenderContributions l a + val"]
    by (auto simp: loan_ok_def lenderExists_set)
next
  case False
  then show ?thesis using assms
    by (auto simp: loan_ok_def lenderExists_set sum_upd_notin)
qed

lemma inv_fundLoan:
  assumes inv: "manager_inv s" and ok: "fundLoan s sender val lid = Inr s'"
  shows "manager_inv s'"
proof -
  note r = fundLoan_Inr[OF ok]
  have old: "loan_ok (loans s lid)" using inv r by (simp add: manager_inv_def)
  have terms: "loan_terms_ok (loans s lid)" using inv r by (simp add: manager_inv_def)
  have new: "loan_ok (loans s' lid) \<and> loan_terms_ok (loans s' lid)"
    using loan_ok_fund[OF old, of val sender] terms r by (simp add: loan_terms_ok_def)
  show ?thesis
    using inv new r unfolding manager_inv_def by (auto simp: fun_upd_def)
qed

lemma inv_repayLoan:
  assumes inv: "manager_inv s" and ok: "repayLoan acc s sender val now lid = Inr (s', ts)"
  shows "manager_inv s'"
proof -
  note r = repayLoan_Inr[OF ok]
  have old: "loan_ok (loans s lid)" using inv r by (simp add: manager_inv_def)
  have terms: "loan_terms_ok (loans s lid)" using inv r by (simp add: manager_inv_def)
  have new: "loan_ok (loans s' lid) \<and> loan_terms_ok (loans s' lid)"
    using old terms r by (simp add: loan_ok_def loan_terms_ok_def)
  show ?thesis
    using inv new r unfolding manager_inv_def by (auto simp: fun_upd_def)
qed

lemma inv_step: "manager_inv s \<Longrightarrow> manager_inv (step s c)"
  by (cases c) (auto split: sum.splits intro: inv_createLoan inv_fundLoan inv_repayLoan)

lemma run_snoc: "run (cs @ [c]) = step (run cs) c"
  by (simp add: run_def)

lemma inv_run: "manager_inv (run cs)"
  by (induction cs rule: rev_induct) (simp_all add: run_snoc inv_step, simp add: run_def inv_init)

lemma loan_ok_run: "loan_ok (loans (run cs) i) \<or> loans (run cs) i = empty_loan"
  using inv_run[of cs] unfolding manager_inv_def by blast

lemmas loan_defs = run_def init_manager_def empty_loan_def createLoan_def fundLoan_def
  repayLoan_def calculateRepaymentAmount_def getLenderContribution_def getLoanLenders_def
  rbind_def checked_add_def checked_sub_def checked_mul_def checked_div_def transfer_def Let_def
  MIN_LOAN_AMOUNT_def MAX_LOAN_AMOUNT_def MIN_INTEREST_RATE_def MAX_INTEREST_RATE_def
  MIN_DURATION_def MAX_DURATION_def ether_def days_def MAX_UINT256_def transfers_of_def
  all_accept_def






text \<open>
  C3. In every reachable state the lender list of a loan has no duplicates, the
  contributions of the listed lenders add up to the funded amount, and nobody outside the
  list has a contribution. A successful \<^verbatim>\<open>fundLoan\<close> by a listed lender leaves the list as
  it was, a first contribution appends the lender once, and either way
  \<^verbatim>\<open>getLenderContribution\<close> then returns the lender's previous contribution plus the value
  sent.
\<close>

theorem lenders_distinct_contributions_sum:
  "distinct (Loan.lenders (loans (run cs) i))
   \<and> sum_list (map (Loan.lenderContributions (loans (run cs) i)) (Loan.lenders (loans (run cs) i)))
       = Loan.fundedAmount (loans (run cs) i)
   \<and> (\<forall>a. a \<notin> set (Loan.lenders (loans (run cs) i))
         \<longrightarrow> Loan.lenderContributions (loans (run cs) i) a = 0)
   \<and> (\<forall>a v s'. fundLoan (run cs) a v i = Inr s' \<longrightarrow>
         Loan.lenders (loans s' i)
           = (if a \<in> set (Loan.lenders (loans (run cs) i)) then Loan.lenders (loans (run cs) i)
              else Loan.lenders (loans (run cs) i) @ [a])
         \<and> getLenderContribution s' i a
           = Inr (Loan.lenderContributions (loans (run cs) i) a + v))"
proof -
  have ok: "distinct (Loan.lenders (loans (run cs) i))
   \<and> sum_list (map (Loan.lenderContributions (loans (run cs) i)) (Loan.lenders (loans (run cs) i)))
       = Loan.fundedAmount (loans (run cs) i)
   \<and> (\<forall>a. a \<notin> set (Loan.lenders (loans (run cs) i))
         \<longrightarrow> Loan.lenderContributions (loans (run cs) i) a = 0)"
    using loan_ok_run[of cs i] by (auto simp: loan_ok_def empty_loan_def)
  have fund: "Loan.lenders (loans s' i)
           = (if a \<in> set (Loan.lenders (loans (run cs) i)) then Loan.lenders (loans (run cs) i)
              else Loan.lenders (loans (run cs) i) @ [a])
         \<and> getLenderContribution s' i a
           = Inr (Loan.lenderContributions (loans (run cs) i) a + v)"
    if "fundLoan (run cs) a v i = Inr s'" for a v s'
    using fundLoan_Inr[OF that] by (simp add: getLenderContribution_def lenderExists_set)
  show ?thesis using ok fund by blast
qed

theorem lenders_distinct_contributions_sum_witness:
  "Loan.lenders (loans (run scenario_two_lenders) 0) = [1, 2]
   \<and> Loan.lenderContributions (loans (run scenario_two_lenders) 0) 1 = 2
   \<and> Loan.lenderContributions (loans (run scenario_two_lenders) 0) 2 = 10 ^ 16 - 2
   \<and> Loan.lenderContributions (loans (run scenario_two_lenders) 0) 3 = 0
   \<and> Loan.fundedAmount (loans (run scenario_two_lenders) 0) = 10 ^ 16
   \<and> getLenderContribution (run scenario_two_lenders) 0 1 = Inr 2"
proof -
  have a: "3 \<notin> set (Loan.lenders (loans (run scenario_two_lenders) 0))"
    by (simp add: scenario_two_lenders_def loan_defs)
  have b: "Loan.lenderContributions (loans (run scenario_two_lenders) 0) 3 = 0"
    using lenders_distinct_contributions_sum[of scenario_two_lenders 0] a by blast
  have c: "fundLoan (run (butlast scenario_two_lenders)) 1 1 0 = Inr (run scenario_two_lenders)"
    by (simp add: scenario_two_lenders_def loan_defs)
  have d: "getLenderContribution (run scenario_two_lenders) 0 1
      = Inr (Loan.lenderContributions (loans (run (butlast scenario_two_lenders)) 0) 1 + 1)"
    using lenders_distinct_contributions_sum[of "butlast scenario_two_lenders" 0] c by blast
  show ?thesis
    using b d by (simp add: scenario_two_lenders_def loan_defs)
qed

lemma payLenders_Inr:
  "payLenders acc l R xs bal = Inr (bal', ts) \<Longrightarrow>
     ts = map (\<lambda>a. (a, Loan.lenderContributions l a * R div Loan.fundedAmount l)) xs
     \<and> bal' + sum_list (map snd ts) = bal"
proof (induction xs arbitrary: bal bal' ts)
  case Nil
  then show ?case by simp
next
  case (Cons x xs)
  from Cons.prems obtain b1 r where
    t: "transfer acc bal x (Loan.lenderContributions l x * R div Loan.fundedAmount l) = Inr b1"
    and rec: "payLenders acc l R xs b1 = Inr r"
    and res: "bal' = fst r" "ts = (x, Loan.lenderContributions l x * R div Loan.fundedAmount l) # snd r"
    by (auto simp: rbind_def checked_mul_def checked_div_def split: if_splits sum.splits)
  from rec have "payLenders acc l R xs b1 = Inr (fst r, snd r)" by simp
  from Cons.IH[OF this] t res show ?case
    by (auto simp: transfer_def split: if_splits)
qed

lemma floor_shares_lower:
  "(F::nat) * sum_list (map (\<lambda>a. c a * R div F) xs) \<le> R * sum_list (map c xs)"
proof (induction xs)
  case Nil
  then show ?case by simp
next
  case (Cons x xs)
  have a: "F * (c x * R div F) \<le> c x * R" by simp
  have b: "F * sum_list (map (\<lambda>a. c a * R div F) (x # xs))
      = F * (c x * R div F) + F * sum_list (map (\<lambda>a. c a * R div F) xs)"
    by (simp add: distrib_left)
  have c: "R * sum_list (map c (x # xs)) = c x * R + R * sum_list (map c xs)"
    by (simp add: distrib_left mult.commute)
  show ?case using a b c Cons by linarith
qed

lemma floor_shares_upper:
  "0 < (F::nat) \<Longrightarrow>
     R * sum_list (map c xs) + length xs \<le> F * sum_list (map (\<lambda>a. c a * R div F) xs) + F * length xs"
proof (induction xs)
  case Nil
  then show ?case by simp
next
  case (Cons x xs)
  have "c x * R mod F < F" using Cons.prems by simp
  moreover have "c x * R = F * (c x * R div F) + c x * R mod F" by simp
  ultimately have a: "c x * R + 1 \<le> F * (c x * R div F) + F" by linarith
  have b: "F * sum_list (map (\<lambda>a. c a * R div F) (x # xs))
      = F * (c x * R div F) + F * sum_list (map (\<lambda>a. c a * R div F) xs)"
    by (simp add: distrib_left)
  have c: "R * sum_list (map c (x # xs)) = c x * R + R * sum_list (map c xs)"
    by (simp add: distrib_left mult.commute)
  have d: "F * length (x # xs) = F + F * length xs" by simp
  have e: "length (x # xs) = 1 + length xs" by simp
  show ?case using a b c d e Cons by linarith
qed

lemma floor_shares_bounds:
  assumes s: "sum_list (map c xs) = (F::nat)" and F: "0 < F"
  shows "sum_list (map (\<lambda>a. c a * R div F) xs) \<le> R
     \<and> R < sum_list (map (\<lambda>a. c a * R div F) xs) + length xs"
proof -
  let ?S = "sum_list (map (\<lambda>a. c a * R div F) xs)"
  have "xs \<noteq> []" using s F by auto
  then have n: "0 < length xs" by simp
  have "F * ?S \<le> F * R" using floor_shares_lower[of F c R xs] s by (simp add: mult.commute)
  then have lo: "?S \<le> R" using F by simp
  have "F * R + length xs \<le> F * (?S + length xs)"
    using floor_shares_upper[OF F, of R c xs] s by (simp add: algebra_simps)
  then have "F * R < F * (?S + length xs)" using n by linarith
  then have "R < ?S + length xs" using F by simp
  with lo show ?thesis by simp
qed

lemma repayLoan_transfers:
  assumes ok: "repayLoan acc s sender val now lid = Inr (s', ts)"
    and R: "calculateRepaymentAmount s lid = Inr R"
  shows "ts = map (\<lambda>a. (a, Loan.lenderContributions (loans s lid) a * R
                          div Loan.fundedAmount (loans s lid)))
                 (Loan.lenders (loans s lid))
              @ (if R < val then [(sender, val - R)] else [])"
proof -
  from ok R obtain r where
    p: "payLenders acc (loans s lid) R (Loan.lenders (loans s lid))
          (LoanManager.balance s + val) = Inr r"
    and t: "ts = snd r @ (if R < val then [(sender, val - R)] else [])"
    unfolding repayLoan_def Let_def
    by (auto simp: rbind_def split: if_splits sum.splits)
  from p have "payLenders acc (loans s lid) R (Loan.lenders (loans s lid))
          (LoanManager.balance s + val) = Inr (fst r, snd r)" by simp
  from payLenders_Inr[OF this] t show ?thesis by simp
qed

text \<open>
  C1 (as stated). A loan of 0.01 ether at rate 5 over 30 days, funded by lender 1 with
  2 wei and by lender 2 with the rest, owes 10000410958904109 wei. The borrower pays exactly
  that; the two lenders receive 2 and 10000410958904106 wei, one wei less than was paid, and
  the loan is Repaid.
\<close>

theorem repay_payouts_sum_counterexample:
  "calculateRepaymentAmount (run scenario_two_lenders) 0 = Inr 10000410958904109
   \<and> transfers_of (repayLoan all_accept (run scenario_two_lenders) 7 10000410958904109 2000 0)
       = [(1, 2), (2, 10000410958904106)]
   \<and> sum_list (map snd
        (transfers_of (repayLoan all_accept (run scenario_two_lenders) 7 10000410958904109 2000 0)))
       = 10000410958904108
   \<and> Loan.status (loans (run (scenario_two_lenders @ [RepayLoan [] 7 10000410958904109 2000 0])) 0)
       = Repaid"
  by (simp add: scenario_two_lenders_def loan_defs)

text \<open>
  C1 (amended). When \<^verbatim>\<open>repayLoan\<close> succeeds in a reachable state, the transfers are, in
  the order of the lender list, \<open>contribution * repaymentAmount div fundedAmount\<close> to each
  lender, followed by the refund of any excess to the borrower. The payouts to the lenders
  never add up to more than \<^verbatim>\<open>calculateRepaymentAmount\<close>, and fall short of it by less
  than the number of lenders.
\<close>

theorem repay_payouts_bounds:
  assumes ok: "repayLoan acc (run cs) sender val now i = Inr (s', ts)"
    and R: "calculateRepaymentAmount (run cs) i = Inr R"
  shows "ts = map (\<lambda>a. (a, Loan.lenderContributions (loans (run cs) i) a * R
                          div Loan.fundedAmount (loans (run cs) i)))
                 (Loan.lenders (loans (run cs) i))
              @ (if R < val then [(sender, val - R)] else [])
     \<and> sum_list (map (\<lambda>a. Loan.lenderContributions (loans (run cs) i) a * R
                          div Loan.fundedAmount (loans (run cs) i))
                 (Loan.lenders (loans (run cs) i))) \<le> R
     \<and> R < sum_list (map (\<lambda>a. Loan.lenderContributions (loans (run cs) i) a * R
                          div Loan.fundedAmount (loans (run cs) i))
                 (Loan.lenders (loans (run cs) i)))
           + length (Loan.lenders (loans (run cs) i))"
proof -
  note r = repayLoan_Inr[OF ok]
  have i: "i < loanCounter (run cs)" using r by simp
  have inv: "loan_ok (loans (run cs) i) \<and> MIN_LOAN_AMOUNT \<le> Loan.amount (loans (run cs) i)"
    using inv_run[of cs] i by (simp add: manager_inv_def loan_terms_ok_def)
  have sum: "sum_list (map (Loan.lenderContributions (loans (run cs) i))
      (Loan.lenders (loans (run cs) i))) = Loan.fundedAmount (loans (run cs) i)"
    using inv by (simp add: loan_ok_def)
  have "Loan.fundedAmount (loans (run cs) i) = Loan.amount (loans (run cs) i)"
    using inv r by (auto simp: loan_ok_def)
  then have pos: "0 < Loan.fundedAmount (loans (run cs) i)"
    using inv min_loan_pos by simp
  show ?thesis
    using repayLoan_transfers[OF ok R] floor_shares_bounds[OF sum pos, of R] by simp
qed

theorem repay_payouts_bounds_witness:
  "repayLoan all_accept (run scenario_two_lenders) 7 10000410958904114 2000 0
     = Inr (run (scenario_two_lenders @ [RepayLoan [] 7 10000410958904114 2000 0]),
            [(1, 2), (2, 10000410958904106), (7, 5)])
   \<and> calculateRepaymentAmount (run scenario_two_lenders) 0 = Inr 10000410958904109
   \<and> Loan.lenders (loans (run scenario_two_lenders) 0) = [1, 2]"
proof -
  have a: "repayLoan all_accept (run scenario_two_lenders) 7 10000410958904114 2000 0
     = Inr (run (scenario_two_lenders @ [RepayLoan [] 7 10000410958904114 2000 0]),
            [(1, 2), (2, 10000410958904106), (7, 5)])"
    by (simp add: scenario_two_lenders_def loan_defs)
  have b: "calculateRepaymentAmount (run scenario_two_lenders) 0 = Inr 10000410958904109"
    by (simp add: scenario_two_lenders_def loan_defs)
  have c: "Loan.lenders (loans (run scenario_two_lenders) 0) = [1, 2]"
    by (simp add: scenario_two_lenders_def loan_defs)
  from repay_payouts_bounds[OF a b] a b c show ?thesis by blast
qed



lemma repayLoan_insufficient:
  assumes "i < loanCounter s" "borrower (loans s i) = sender" "Loan.status (loans s i) = Active"
    "calculateRepaymentAmount s i = Inr R" "val < R"
  shows "repayLoan acc s sender val now i = Inl (Revert ''Insufficient repayment amount'')"
  using assms by (simp add: repayLoan_def rbind_def Let_def)

text \<open>
  C4. The rate bounds of \<^verbatim>\<open>createLoan\<close> and the divisor of
  \<^verbatim>\<open>calculateRepaymentAmount\<close> follow two conventions. A rate of 1000, which the docstring
  of \<^verbatim>\<open>createLoan\<close> gives as 10 per cent in basis points, is refused by the bounds 5 and 50;
  a rate of 10, which the bounds accept, on one ether over 365 days yields an interest of a
  thousandth of an ether, since the divisor is \<^verbatim>\<open>365 days * 10000\<close>.
\<close>

theorem rate_bounds_and_divisor_disagree:
  "createLoan init_manager 7 1000 ether 1000 (365 * days) ''stock''
     = Inl (Revert ''Invalid interest rate'')
   \<and> Loan.status (loans (run scenario_one_year) 0) = Active
   \<and> Loan.interestRate (loans (run scenario_one_year) 0) = 10
   \<and> calculateRepaymentAmount (run scenario_one_year) 0 = Inr (ether + ether div 1000)"
  by (simp add: scenario_one_year_def loan_defs)









section \<open>Lemmas on the reputation contract\<close>

lemmas rep_defs = rep_run_def rep_step_def init_reputation_def empty_reputation_def
  registerUser_def updateReputationOnRepayment_def updateReputationOnDefault_def
  updateReputationOnLending_def updateReputationOnReferral_def updateCategoryScore_def
  finish_def updateTrustLevel_def levelForScore_def min_sol_def max_sol_def
  rbind_def checked_add_def checked_sub_def Let_def MAX_UINT256_def ether_def
  MAX_SCORE_def MIN_SCORE_def SUCCESSFUL_LOAN_POINTS_def DEFAULT_PENALTY_def
  ON_TIME_REPAYMENT_BONUS_def EARLY_REPAYMENT_BONUS_def LENDING_POINTS_def REFERRAL_POINTS_def

lemma default_underflow:
  assumes "registeredUsers s u" "score (reputations s u) < DEFAULT_PENALTY"
  shows "updateReputationOnDefault s u a now = Inl Panic"
  using assms
  by (simp add: updateReputationOnDefault_def rbind_def checked_add_def checked_sub_def Let_def)

lemma default_above_penalty:
  assumes "updateReputationOnDefault s u a now = Inr (s', es)"
  shows "DEFAULT_PENALTY \<le> score (reputations s u)
     \<and> score (reputations s' u) = score (reputations s u) - DEFAULT_PENALTY"
  using assms
  by (auto simp: updateReputationOnDefault_def rbind_def checked_add_def checked_sub_def Let_def
      finish_def updateTrustLevel_def max_sol_def MIN_SCORE_def split: if_splits)

text \<open>
  C7. A registered user starts at 100 points. After one default the score is 0; a second
  default does not leave it at 0 but panics, and so does a default at 50 points: the
  subtraction \<^verbatim>\<open>reputation.score - penalty\<close> is checked and underflows before \<^verbatim>\<open>_max\<close> is
  applied.
\<close>

theorem default_below_penalty_panics:
  "registeredUsers (rep_run scenario_defaulted) 7
   \<and> score (reputations (rep_run scenario_defaulted) 7) = 0
   \<and> updateReputationOnDefault (rep_run scenario_defaulted) 7 ether 3000 = Inl Panic
   \<and> score (reputations (rep_run (scenario_defaulted @ [OnRepayment 7 ether False False 3000])) 7) = 50
   \<and> updateReputationOnDefault
        (rep_run (scenario_defaulted @ [OnRepayment 7 ether False False 3000])) 7 ether 4000
       = Inl Panic"
  by (simp add: scenario_defaulted_def rep_defs)

text \<open>
  C8. The top threshold of \<^verbatim>\<open>_updateTrustLevel\<close> is 1000, not 1001: a user who goes from
  950 to exactly 1000 points is moved from Excellent to Premium, with the event.
\<close>

theorem score_thousand_is_premium:
  "levelForScore 1000 = Premium
   \<and> levelForScore 999 = Excellent
   \<and> score (reputations (rep_run (butlast scenario_thousand)) 7) = 950
   \<and> trustLevel (reputations (rep_run (butlast scenario_thousand)) 7) = Excellent
   \<and> score (reputations (rep_run scenario_thousand) 7) = 1000
   \<and> trustLevel (reputations (rep_run scenario_thousand) 7) = Premium
   \<and> map_sum id snd (updateReputationOnRepayment (rep_run (butlast scenario_thousand)) 7 ether False False 3000)
       = Inr [TrustLevelChanged 7 Premium Excellent,
              ReputationUpdated 7 1000 950 ''Successful loan repayment'']"
  by (simp add: scenario_thousand_def rep_defs)

lemma finish_result:
  "finish s u rep prev new now reason =
     (s\<lparr> reputations := (reputations s)(u := rep\<lparr> score := new, lastUpdated := now,
            trustLevel := levelForScore new \<rparr>) \<rparr>,
      (if levelForScore new \<noteq> trustLevel rep
       then [TrustLevelChanged u (levelForScore new) (trustLevel rep)] else [])
      @ [ReputationUpdated u new prev reason])"
  by (simp add: finish_def updateTrustLevel_def Let_def)

lemma finish_level_derived:
  "level_derived s \<Longrightarrow> level_derived (fst (finish s u rep prev new now reason))"
  by (simp add: finish_result level_derived_def)

lemma onRepayment_finish:
  "updateReputationOnRepayment s u a onTime early now = Inr r \<Longrightarrow>
     \<exists>rep prev new reason. r = finish s u rep prev new now reason"
  unfolding updateReputationOnRepayment_def rbind_def Let_def
  by (auto split: if_splits sum.splits)

lemma onDefault_finish:
  "updateReputationOnDefault s u a now = Inr r \<Longrightarrow>
     \<exists>rep prev new reason. r = finish s u rep prev new now reason"
  unfolding updateReputationOnDefault_def rbind_def Let_def
  by (auto split: if_splits sum.splits)

lemma onLending_finish:
  "updateReputationOnLending s u a now = Inr r \<Longrightarrow>
     \<exists>rep prev new reason. r = finish s u rep prev new now reason"
  unfolding updateReputationOnLending_def rbind_def Let_def
  by (auto split: if_splits sum.splits)

lemma onReferral_finish:
  "updateReputationOnReferral s u v now = Inr r \<Longrightarrow>
     \<exists>rep prev new reason. r = finish s u rep prev new now reason"
  unfolding updateReputationOnReferral_def rbind_def Let_def
  by (auto split: if_splits sum.splits)

lemma onCategory_finish:
  "updateCategoryScore s u cat p now = Inr r \<Longrightarrow>
     \<exists>rep prev new reason. r = finish s u rep prev new now reason"
  unfolding updateCategoryScore_def rbind_def Let_def
  by (auto split: if_splits sum.splits)

lemma registerUser_level_derived:
  assumes inv: "level_derived s" and ok: "registerUser s u now = Inr r"
  shows "level_derived (fst r)"
proof -
  have r: "fst r = s\<lparr> registeredUsers := (registeredUsers s)(u := True),
                  users := users s @ [u],
                  reputations := (reputations s)(u := (reputations s u)\<lparr>
                    score := 100, trustLevel := New, lastUpdated := now \<rparr>) \<rparr>"
    using ok by (cases "registeredUsers s u") (auto simp: registerUser_def)
  have "levelForScore 100 = New" by (simp add: levelForScore_def)
  then show ?thesis using inv unfolding r level_derived_def by simp
qed

lemma level_derived_exec:
  assumes inv: "level_derived s" and ok: "rep_exec s c = Inr r"
  shows "level_derived (fst r)"
proof -
  have fin: "level_derived (fst r)"
    if "\<exists>rep prev new reason. r = finish s u rep prev new now reason" for u now
  proof -
    from that obtain rep prev new reason where "r = finish s u rep prev new now reason"
      by blast
    then show ?thesis using finish_level_derived[OF inv] by simp
  qed
  show ?thesis
  proof (cases c)
    case (RegisterUser u now)
    then show ?thesis using registerUser_level_derived[OF inv] ok by simp
  next
    case (OnRepayment u a onTime early now)
    then have "updateReputationOnRepayment s u a onTime early now = Inr r" using ok by simp
    then show ?thesis by (rule fin[OF onRepayment_finish])
  next
    case (OnDefault u a now)
    then have "updateReputationOnDefault s u a now = Inr r" using ok by simp
    then show ?thesis by (rule fin[OF onDefault_finish])
  next
    case (OnLending u a now)
    then have "updateReputationOnLending s u a now = Inr r" using ok by simp
    then show ?thesis by (rule fin[OF onLending_finish])
  next
    case (OnReferral u v now)
    then have "updateReputationOnReferral s u v now = Inr r" using ok by simp
    then show ?thesis by (rule fin[OF onReferral_finish])
  next
    case (OnCategory u cat p now)
    then have "updateCategoryScore s u cat p now = Inr r" using ok by simp
    then show ?thesis by (rule fin[OF onCategory_finish])
  qed
qed

lemma level_derived_run: "level_derived (rep_run cs)"
proof (induction cs rule: rev_induct)
  case Nil
  show ?case
    by (simp add: level_derived_def rep_run_def init_reputation_def empty_reputation_def
        levelForScore_def)
next
  case (snoc c cs)
  show ?case
  proof (cases "rep_exec (rep_run cs) c")
    case (Inl e)
    then show ?thesis using snoc by (simp add: rep_run_def rep_step_def)
  next
    case (Inr r)
    from level_derived_exec[OF snoc Inr] Inr show ?thesis
      by (simp add: rep_run_def rep_step_def)
  qed
qed

text \<open>The three paths that add points do clamp at \<open>MAX_SCORE\<close>.\<close>

lemma finish_score:
  "score (reputations (fst (finish s u rep prev new now reason)) u) = new"
  by (simp add: finish_result)

lemma repayment_score:
  assumes "updateReputationOnRepayment s u a onTime early now = Inr r"
  shows "score (reputations (fst r) u)
    = min (score (reputations s u) + SUCCESSFUL_LOAN_POINTS
           + (if onTime then ON_TIME_REPAYMENT_BONUS else 0)
           + (if early then EARLY_REPAYMENT_BONUS else 0)) MAX_SCORE"
proof -
  from assms obtain rep prev reason where
    "r = finish s u rep prev
       (min_sol (score (reputations s u) + ((if onTime
            then SUCCESSFUL_LOAN_POINTS + ON_TIME_REPAYMENT_BONUS else SUCCESSFUL_LOAN_POINTS)
          + (if early then EARLY_REPAYMENT_BONUS else 0))) MAX_SCORE) now reason"
    unfolding updateReputationOnRepayment_def rbind_def Let_def checked_add_def
    by (auto split: if_splits sum.splits)
  then show ?thesis
    by (simp add: finish_score min_sol_def min_def)
qed

lemma lending_score:
  assumes "updateReputationOnLending s u a now = Inr r"
  shows "score (reputations (fst r) u) = min (score (reputations s u) + LENDING_POINTS) MAX_SCORE"
proof -
  from assms obtain rep prev reason where
    "r = finish s u rep prev (min_sol (score (reputations s u) + LENDING_POINTS) MAX_SCORE) now reason"
    unfolding updateReputationOnLending_def rbind_def Let_def checked_add_def
    by (auto split: if_splits sum.splits)
  then show ?thesis
    by (simp add: finish_score min_sol_def min_def)
qed

lemma referral_score:
  assumes "updateReputationOnReferral s u v now = Inr r"
  shows "score (reputations (fst r) u) = min (score (reputations s u) + REFERRAL_POINTS) MAX_SCORE"
proof -
  from assms obtain rep prev reason where
    "r = finish s u rep prev (min_sol (score (reputations s u) + REFERRAL_POINTS) MAX_SCORE) now reason"
    unfolding updateReputationOnReferral_def rbind_def Let_def checked_add_def
    by (auto split: if_splits sum.splits)
  then show ?thesis
    by (simp add: finish_score min_sol_def min_def)
qed

section \<open>Lemmas on the pool contract\<close>

lemmas pool_defs = pool_run_def init_pools_def empty_pool_def createPool_def addLiquidity_def
  removeLiquidity_def distributeYield_def deactivatePool_def getLenderYield_def
  rbind_def checked_add_def checked_sub_def checked_mul_def checked_div_def transfer_def Let_def
  MIN_POOL_AMOUNT_def MAX_POOL_AMOUNT_def MIN_INTEREST_RATE_pool_def MAX_INTEREST_RATE_pool_def
  ether_def MAX_UINT256_def transfers_of_def all_accept_def

lemma payYield_Inr:
  "payYield acc p T xs ys bal = Inr (ys', bal', ts) \<Longrightarrow>
     ts = map (\<lambda>a. (a, T * lenderShares p a div currentAmount p)) xs
     \<and> bal' + sum_list (map snd ts) = bal
     \<and> (\<forall>a. a \<notin> set xs \<longrightarrow> ys' a = ys a)
     \<and> (distinct xs \<longrightarrow> (\<forall>a \<in> set xs. ys' a = ys a + T * lenderShares p a div currentAmount p))"
proof (induction xs arbitrary: ys bal ys' bal' ts)
  case Nil
  then show ?case by simp
next
  case (Cons x xs)
  let ?q = "T * lenderShares p x div currentAmount p"
  from Cons.prems obtain b1 r where
    t: "transfer acc bal x ?q = Inr b1"
    and rec: "payYield acc p T xs (ys(x := ys x + ?q)) b1 = Inr r"
    and res: "ys' = fst r" "bal' = fst (snd r)" "ts = (x, ?q) # snd (snd r)"
    by (auto simp: rbind_def checked_mul_def checked_div_def checked_add_def
        split: if_splits sum.splits)
  from rec have "payYield acc p T xs (ys(x := ys x + ?q)) b1 = Inr (fst r, fst (snd r), snd (snd r))"
    by simp
  from Cons.IH[OF this] t res show ?case
    by (auto simp: transfer_def split: if_splits)
qed

lemma distributeYield_Inr:
  assumes "distributeYield acc s sender pid T = Inr (s', ts)"
  shows "pid < poolCounter s \<and> creator (pools s pid) = sender \<and> 0 < T
    \<and> 0 < currentAmount (pools s pid)
    \<and> poolCounter s' = poolCounter s \<and> userPools s' = userPools s
    \<and> pools s' = (pools s)(pid := (pools s pid)\<lparr> lenderYield := lenderYield (pools s' pid) \<rparr>)
    \<and> (\<exists>bal. payYield acc (pools s pid) T (Pool.lenders (pools s pid)) (lenderYield (pools s pid))
          (LenderPool.balance s) = Inr (lenderYield (pools s' pid), bal, ts))"
  using assms
  unfolding distributeYield_def rbind_def Let_def
  by (auto split: if_splits sum.splits)

lemma inv_init_pools: "pools_inv init_pools"
  by (simp add: pools_inv_def init_pools_def pool_ok_def empty_pool_def)

lemma createPool_Inr:
  assumes "createPool s sender now nm descr target rate = Inr (s', i)"
  shows "i = poolCounter s \<and> poolCounter s' = Suc (poolCounter s)
    \<and> pools s' = (pools s)(i := (pools s i)\<lparr> pool_id := i, creator := sender, Pool.name := nm,
               description := descr, targetAmount := target, currentAmount := 0,
               Pool.interestRate := rate, Pool.createdAt := now, active := True \<rparr>)"
  using assms
  unfolding createPool_def rbind_def checked_add_def Let_def
  by (simp split: if_splits) auto

lemma addLiquidity_Inr:
  assumes "addLiquidity s sender val pid = Inr s'"
  shows "pid < poolCounter s \<and> active (pools s pid) \<and> 0 < val
    \<and> poolCounter s' = poolCounter s
    \<and> pools s' = (pools s)(pid := (pools s pid)\<lparr>
          currentAmount := currentAmount (pools s pid) + val,
          lenderShares := (lenderShares (pools s pid))
             (sender := lenderShares (pools s pid) sender + val),
          Pool.lenders := (if lenderExists (Pool.lenders (pools s pid)) sender
             then Pool.lenders (pools s pid) else Pool.lenders (pools s pid) @ [sender]) \<rparr>)"
  using assms
  unfolding addLiquidity_def rbind_def checked_add_def Let_def
  by (simp split: if_splits) auto

lemma removeLiquidity_Inr:
  assumes "removeLiquidity acc s sender pid amt = Inr (s', ts)"
  shows "pid < poolCounter s \<and> amt \<le> lenderShares (pools s pid) sender
    \<and> amt \<le> currentAmount (pools s pid)
    \<and> poolCounter s' = poolCounter s
    \<and> pools s' = (pools s)(pid := (pools s pid)\<lparr>
          currentAmount := currentAmount (pools s pid) - amt,
          lenderShares := (lenderShares (pools s pid))
             (sender := lenderShares (pools s pid) sender - amt) \<rparr>)"
  using assms
  unfolding removeLiquidity_def rbind_def checked_sub_def Let_def
  by (simp split: if_splits sum.splits) auto

lemma deactivatePool_Inr:
  assumes "deactivatePool s sender pid = Inr s'"
  shows "poolCounter s' = poolCounter s
    \<and> pools s' = (pools s)(pid := (pools s pid)\<lparr> active := False \<rparr>)"
  using assms
  unfolding deactivatePool_def
  by (simp split: if_splits) auto

lemma pool_inv_update:
  assumes inv: "pools_inv s" and c: "poolCounter s' = poolCounter s" and i: "pid < poolCounter s"
    and p: "pools s' = (pools s)(pid := p')" and ok: "pool_ok p'"
  shows "pools_inv s'"
  using assms unfolding pools_inv_def by (auto simp: fun_upd_def)

lemma inv_createPool:
  assumes inv: "pools_inv s" and ok: "createPool s sender now nm descr target rate = Inr (s', i)"
  shows "pools_inv s'"
proof -
  note r = createPool_Inr[OF ok]
  have e: "pools s i = empty_pool" using inv r by (simp add: pools_inv_def)
  have new: "pool_ok (pools s' i)"
    using r by (simp add: e pool_ok_def empty_pool_def)
  have 1: "pool_ok (pools s' j)" for j
    using new inv r by (cases "j = i") (simp_all add: pools_inv_def)
  have 2: "pools s' j = empty_pool" if "\<not> j < poolCounter s'" for j
    using that inv r by (simp add: pools_inv_def)
  show ?thesis unfolding pools_inv_def using 1 2 by blast
qed

lemma inv_addLiquidity:
  assumes inv: "pools_inv s" and ok: "addLiquidity s sender val pid = Inr s'"
  shows "pools_inv s'"
proof -
  note r = addLiquidity_Inr[OF ok]
  let ?p = "pools s pid"
  have old: "pool_ok ?p" using inv by (simp add: pools_inv_def)
  have new: "pool_ok (?p\<lparr> currentAmount := currentAmount ?p + val,
          lenderShares := (lenderShares ?p) (sender := lenderShares ?p sender + val),
          Pool.lenders := (if lenderExists (Pool.lenders ?p) sender
             then Pool.lenders ?p else Pool.lenders ?p @ [sender]) \<rparr>)"
  proof (cases "sender \<in> set (Pool.lenders ?p)")
    case True
    then show ?thesis
      using old sum_upd_in[of "Pool.lenders ?p" sender "lenderShares ?p"
          "lenderShares ?p sender + val"]
      by (auto simp: pool_ok_def lenderExists_set)
  next
    case False
    then show ?thesis using old
      by (auto simp: pool_ok_def lenderExists_set sum_upd_notin)
  qed
  show ?thesis
    using pool_inv_update[OF inv _ _ _ new, of s' pid] r by simp
qed

lemma inv_removeLiquidity:
  assumes inv: "pools_inv s" and ok: "removeLiquidity acc s sender pid amt = Inr (s', ts)"
  shows "pools_inv s'"
proof -
  note r = removeLiquidity_Inr[OF ok]
  let ?p = "pools s pid"
  have old: "pool_ok ?p" using inv by (simp add: pools_inv_def)
  have new: "pool_ok (?p\<lparr> currentAmount := currentAmount ?p - amt,
          lenderShares := (lenderShares ?p) (sender := lenderShares ?p sender - amt) \<rparr>)"
  proof (cases "sender \<in> set (Pool.lenders ?p)")
    case True
    then show ?thesis
      using old r sum_upd_in[of "Pool.lenders ?p" sender "lenderShares ?p"
          "lenderShares ?p sender - amt"]
      by (auto simp: pool_ok_def)
  next
    case False
    then show ?thesis using old r
      by (auto simp: pool_ok_def sum_upd_notin)
  qed
  show ?thesis
    using pool_inv_update[OF inv _ _ _ new, of s' pid] r by simp
qed

lemma inv_distributeYield:
  assumes inv: "pools_inv s" and ok: "distributeYield acc s sender pid T = Inr (s', ts)"
  shows "pools_inv s'"
proof -
  note r = distributeYield_Inr[OF ok]
  have old: "pool_ok (pools s pid)" using inv by (simp add: pools_inv_def)
  then have new: "pool_ok ((pools s pid)\<lparr> lenderYield := lenderYield (pools s' pid) \<rparr>)"
    by (simp add: pool_ok_def)
  show ?thesis
    using pool_inv_update[OF inv _ _ _ new, of s' pid] r by simp
qed

lemma inv_deactivatePool:
  assumes inv: "pools_inv s" and ok: "deactivatePool s sender pid = Inr s'"
  shows "pools_inv s'"
proof -
  note r = deactivatePool_Inr[OF ok]
  have i: "pid < poolCounter s" using ok by (auto simp: deactivatePool_def split: if_splits)
  have old: "pool_ok (pools s pid)" using inv by (simp add: pools_inv_def)
  then have new: "pool_ok ((pools s pid)\<lparr> active := False \<rparr>)"
    by (simp add: pool_ok_def)
  show ?thesis
    using pool_inv_update[OF inv _ i _ new, of s'] r by simp
qed

lemma inv_pool_step: "pools_inv s \<Longrightarrow> pools_inv (pool_step s c)"
  by (cases c)
    (auto split: sum.splits
      intro: inv_createPool inv_addLiquidity inv_removeLiquidity inv_distributeYield
        inv_deactivatePool)

lemma pool_run_snoc: "pool_run (cs @ [c]) = pool_step (pool_run cs) c"
  by (simp add: pool_run_def)

lemma inv_pool_run: "pools_inv (pool_run cs)"
  by (induction cs rule: rev_induct)
    (simp_all add: pool_run_snoc inv_pool_step, simp add: pool_run_def inv_init_pools)

lemma payYield_active:
  "payYield acc (p\<lparr> active := b \<rparr>) T xs ys bal = payYield acc p T xs ys bal"
  by (induction xs arbitrary: ys bal) simp_all

lemma payYield_again:
  assumes "payYield acc p T xs ys bal = Inr (ys', bal', ts)"
    and "payYield acc' (p\<lparr> lenderYield := ys' \<rparr>) T xs ys' b2 = Inr (ys'', b2', ts')"
  shows "ts' = ts"
  using payYield_Inr[OF assms(1)] payYield_Inr[OF assms(2)] by simp

text \<open>
  C9 (as stated). Three contributors of 300 each, and a yield of 100: each is paid 33. The
  pool record after the call differs from the one before only in the three yield entries of
  33 and the contract has paid out 99: the remaining unit is credited to nobody.
\<close>

theorem distribute_yield_remainder_counterexample:
  "transfers_of (distributeYield all_accept (pool_run scenario_three_contributors) 7 0 100)
     = [(1, 33), (2, 33), (3, 33)]
   \<and> sum_list (map snd
        (transfers_of (distributeYield all_accept (pool_run scenario_three_contributors) 7 0 100)))
     = 99
   \<and> pools (pool_run (scenario_three_contributors @ [DistributeYield [] 7 0 100])) 0
     = (pools (pool_run scenario_three_contributors) 0)
         \<lparr> lenderYield := (lenderYield empty_pool)(1 := 33, 2 := 33, 3 := 33) \<rparr>
   \<and> LenderPool.balance (pool_run scenario_three_contributors) = 900
   \<and> LenderPool.balance (pool_run (scenario_three_contributors @ [DistributeYield [] 7 0 100]))
     = 801"
  by (simp add: scenario_three_contributors_def pool_defs)

text \<open>
  C9 (amended). When \<^verbatim>\<open>distributeYield\<close> succeeds in a reachable state, it pays each listed
  contributor \<open>totalYield * share div currentAmount\<close>, in list order, and adds the same
  amount to the contributor's accumulated yield; the yield of everybody else is untouched.
  The amounts paid never add up to more than \<open>totalYield\<close>, and fall short of it by less
  than the number of contributors.
\<close>

theorem distribute_yield_shares:
  assumes ok: "distributeYield acc (pool_run cs) sender pid T = Inr (s', ts)"
  shows "ts = map (\<lambda>a. (a, T * lenderShares (pools (pool_run cs) pid) a
                          div currentAmount (pools (pool_run cs) pid)))
                 (Pool.lenders (pools (pool_run cs) pid))
     \<and> (\<forall>a. lenderYield (pools s' pid) a
            = lenderYield (pools (pool_run cs) pid) a
              + (if a \<in> set (Pool.lenders (pools (pool_run cs) pid))
                 then T * lenderShares (pools (pool_run cs) pid) a
                        div currentAmount (pools (pool_run cs) pid)
                 else 0))
     \<and> sum_list (map snd ts) \<le> T
     \<and> T < sum_list (map snd ts) + length (Pool.lenders (pools (pool_run cs) pid))"
proof -
  let ?p = "pools (pool_run cs) pid"
  note r = distributeYield_Inr[OF ok]
  then obtain bal where
    py: "payYield acc ?p T (Pool.lenders ?p) (lenderYield ?p) (LenderPool.balance (pool_run cs))
           = Inr (lenderYield (pools s' pid), bal, ts)"
    by blast
  note y = payYield_Inr[OF py]
  have inv: "pool_ok ?p" using inv_pool_run[of cs] by (simp add: pools_inv_def)
  then have d: "distinct (Pool.lenders ?p)"
    and sum: "sum_list (map (lenderShares ?p) (Pool.lenders ?p)) = currentAmount ?p"
    by (simp_all add: pool_ok_def)
  have pos: "0 < currentAmount ?p" using r by simp
  have ts: "ts = map (\<lambda>a. (a, T * lenderShares ?p a div currentAmount ?p)) (Pool.lenders ?p)"
    using y by simp
  have snd_ts: "map snd ts = map (\<lambda>a. lenderShares ?p a * T div currentAmount ?p) (Pool.lenders ?p)"
    unfolding ts by (simp add: mult.commute)
  have yields: "lenderYield (pools s' pid) a
            = lenderYield ?p a
              + (if a \<in> set (Pool.lenders ?p)
                 then T * lenderShares ?p a div currentAmount ?p else 0)" for a
    using y d by (cases "a \<in> set (Pool.lenders ?p)") auto
  show ?thesis
    using ts yields floor_shares_bounds[OF sum pos, of T] unfolding snd_ts by blast
qed

theorem distribute_yield_shares_witness:
  "distributeYield all_accept (pool_run scenario_two_contributors) 7 0 100
     = Inr (pool_run (scenario_two_contributors @ [DistributeYield [] 7 0 100]),
            [(1, 50), (2, 50)])
   \<and> currentAmount (pools (pool_run scenario_two_contributors) 0) = 600
   \<and> getLenderYield (pool_run (scenario_two_contributors @ [DistributeYield [] 7 0 100])) 0 1
       = Inr 50
   \<and> getLenderYield (pool_run (scenario_two_contributors @ [DistributeYield [] 7 0 100])) 0 2
       = Inr 50"
proof -
  have a: "distributeYield all_accept (pool_run scenario_two_contributors) 7 0 100
     = Inr (pool_run (scenario_two_contributors @ [DistributeYield [] 7 0 100]),
            [(1, 50), (2, 50)])"
    by (simp add: scenario_two_contributors_def pool_defs)
  have b: "currentAmount (pools (pool_run scenario_two_contributors) 0) = 600
     \<and> getLenderYield (pool_run (scenario_two_contributors @ [DistributeYield [] 7 0 100])) 0 1
       = Inr 50
     \<and> getLenderYield (pool_run (scenario_two_contributors @ [DistributeYield [] 7 0 100])) 0 2
       = Inr 50"
    by (simp add: scenario_two_contributors_def pool_defs)
  from distribute_yield_shares[OF a] a b show ?thesis by blast
qed

text \<open>
  C10. A successful \<^verbatim>\<open>distributeYield\<close> leaves the pool counter, the index of pools per
  user and every other pool as they were, and in the pool itself changes the accumulated
  yields only: the current amount, the shares, the contributor list and the active flag
  are the same. The call does not look at the active flag. A second successful call with
  the same total makes the same transfers.
\<close>

theorem distribute_yield_frame:
  assumes ok: "distributeYield acc s sender pid T = Inr (s', ts)"
  shows "poolCounter s' = poolCounter s \<and> userPools s' = userPools s
     \<and> (\<forall>j. j \<noteq> pid \<longrightarrow> pools s' j = pools s j)
     \<and> pools s' pid = (pools s pid)\<lparr> lenderYield := lenderYield (pools s' pid) \<rparr>
     \<and> currentAmount (pools s' pid) = currentAmount (pools s pid)
     \<and> lenderShares (pools s' pid) = lenderShares (pools s pid)
     \<and> Pool.lenders (pools s' pid) = Pool.lenders (pools s pid)
     \<and> active (pools s' pid) = active (pools s pid)
     \<and> (\<forall>b. transfers_of (distributeYield acc
            (s\<lparr> pools := (pools s)(pid := (pools s pid)\<lparr> active := b \<rparr>) \<rparr>) sender pid T) = ts)
     \<and> (\<forall>acc' s'' ts'. distributeYield acc' s' sender pid T = Inr (s'', ts') \<longrightarrow> ts' = ts)"
proof -
  note r = distributeYield_Inr[OF ok]
  then obtain bal where
    py: "payYield acc (pools s pid) T (Pool.lenders (pools s pid)) (lenderYield (pools s pid))
           (LenderPool.balance s) = Inr (lenderYield (pools s' pid), bal, ts)"
    by blast
  have p': "pools s' pid = (pools s pid)\<lparr> lenderYield := lenderYield (pools s' pid) \<rparr>"
    using r by (metis fun_upd_same)
  have others: "pools s' j = pools s j" if "j \<noteq> pid" for j
    using r that by (metis fun_upd_other)
  have fields: "currentAmount (pools s' pid) = currentAmount (pools s pid)
     \<and> lenderShares (pools s' pid) = lenderShares (pools s pid)
     \<and> Pool.lenders (pools s' pid) = Pool.lenders (pools s pid)
     \<and> active (pools s' pid) = active (pools s pid)
     \<and> creator (pools s' pid) = creator (pools s pid)"
    by (subst p', simp)+
  have flag: "transfers_of (distributeYield acc
            (s\<lparr> pools := (pools s)(pid := (pools s pid)\<lparr> active := b \<rparr>) \<rparr>) sender pid T) = ts" for b
    using r py
    by (simp add: distributeYield_def payYield_active rbind_def transfers_of_def Let_def)
  have again: "ts' = ts" if "distributeYield acc' s' sender pid T = Inr (s'', ts')" for acc' s'' ts'
  proof -
    from distributeYield_Inr[OF that] obtain b2 where
      "payYield acc' (pools s' pid) T (Pool.lenders (pools s' pid)) (lenderYield (pools s' pid))
           (LenderPool.balance s') = Inr (lenderYield (pools s'' pid), b2, ts')"
      by blast
    then have "ts' = map (\<lambda>a. (a, T * lenderShares (pools s' pid) a
                          div currentAmount (pools s' pid))) (Pool.lenders (pools s' pid))"
      using payYield_Inr by blast
    moreover have "ts = map (\<lambda>a. (a, T * lenderShares (pools s pid) a
                          div currentAmount (pools s pid))) (Pool.lenders (pools s pid))"
      using payYield_Inr[OF py] by blast
    ultimately show ?thesis using fields by simp
  qed
  show ?thesis using r p' others fields flag again by blast
qed

theorem distribute_yield_frame_witness:
  "\<not> active (pools (pool_run scenario_two_contributors) 0)
   \<and> distributeYield all_accept (pool_run scenario_two_contributors) 7 0 100
     = Inr (pool_run (scenario_two_contributors @ [DistributeYield [] 7 0 100]),
            [(1, 50), (2, 50)])
   \<and> distributeYield all_accept
        (pool_run (scenario_two_contributors @ [DistributeYield [] 7 0 100])) 7 0 100
     = Inr (pool_run (scenario_two_contributors
              @ [DistributeYield [] 7 0 100, DistributeYield [] 7 0 100]),
            [(1, 50), (2, 50)])
   \<and> currentAmount (pools (pool_run (scenario_two_contributors @ [DistributeYield [] 7 0 100])) 0)
     = 600
   \<and> getLenderYield (pool_run (scenario_two_contributors
              @ [DistributeYield [] 7 0 100, DistributeYield [] 7 0 100])) 0 1 = Inr 100"
proof -
  have a: "distributeYield all_accept (pool_run scenario_two_contributors) 7 0 100
     = Inr (pool_run (scenario_two_contributors @ [DistributeYield [] 7 0 100]),
            [(1, 50), (2, 50)])"
    by (simp add: scenario_two_contributors_def pool_defs)
  have b: "distributeYield all_accept
        (pool_run (scenario_two_contributors @ [DistributeYield [] 7 0 100])) 7 0 100
     = Inr (pool_run (scenario_two_contributors
              @ [DistributeYield [] 7 0 100, DistributeYield [] 7 0 100]),
            [(1, 50), (2, 50)])"
    by (simp add: scenario_two_contributors_def pool_defs)
  have c: "\<not> active (pools (pool_run scenario_two_contributors) 0)
     \<and> currentAmount (pools (pool_run scenario_two_contributors) 0) = 600
     \<and> getLenderYield (pool_run (scenario_two_contributors
              @ [DistributeYield [] 7 0 100, DistributeYield [] 7 0 100])) 0 1 = Inr 100"
    by (simp add: scenario_two_contributors_def pool_defs)
  from distribute_yield_frame[OF a] a b c show ?thesis by metis
qed

section \<open>Lemmas on the server's loan documents\<close>

lemma cancelLoan_accepts_pending:
  assumes "db ident = Some loan" "LoanDoc.borrowerId loan = userId" "LoanDoc.status loan = ''pending''"
  shows "cancelLoan db ident userId now
    = (db(ident \<mapsto> loan\<lparr> LoanDoc.status := ''cancelled'', isActive := False, LoanDoc.updatedAt := now \<rparr>),
       200, ''Loan cancelled successfully'')"
  using assms by (simp add: cancelLoan_def)

lemma cancelLoan_rejects_other_status:
  assumes "db ident = Some loan" "LoanDoc.borrowerId loan = userId" "LoanDoc.status loan \<noteq> ''pending''"
  shows "cancelLoan db ident userId now = (db, 400, ''Cannot cancel loan'')"
  using assms by (simp add: cancelLoan_def)

text \<open>
  C5. A loan of 1000 that has received 500 from a lender is still \<^verbatim>\<open>pending\<close>. Its
  borrower cancels it: the controller answers 200, and the stored loan is cancelled with its
  500 of funding and its lender still recorded. The controller tests the status only.
\<close>

theorem cancel_after_partial_funding_succeeds:
  "map_option LoanDoc.status (half_funded_db ''loan1'') = Some ''pending''
   \<and> map_option LoanDoc.fundedAmount (half_funded_db ''loan1'') = Some 500
   \<and> snd (cancelLoan half_funded_db ''loan1'' ''alice'' 20) = (200, ''Loan cancelled successfully'')
   \<and> map_option LoanDoc.status (fst (cancelLoan half_funded_db ''loan1'' ''alice'' 20) ''loan1'')
       = Some ''cancelled''
   \<and> map_option LoanDoc.fundedAmount (fst (cancelLoan half_funded_db ''loan1'' ''alice'' 20) ''loan1'')
       = Some 500
   \<and> map_option LoanDoc.lenders (fst (cancelLoan half_funded_db ''loan1'' ''alice'' 20) ''loan1'')
       = Some [''bob'']"
  by (simp add: half_funded_db_def pending_doc_def fundLoan_doc_def cancelLoan_def Let_def)

end
